theory Spec2Isabelle
  imports Main "HOL-Library.Multiset" "HOL-Library.Product_Lexorder" "HOL-Library.Option_ord"
begin

section \<open>Saree CRM: a model of \<^verbatim>\<open>saree_crm_flask_app.py\<close>\<close>

text \<open>
  The application keeps three tables (customers, orders, follow-ups) in a relational store
  and serves them through request handlers. The model below keeps a table as the list of
  its rows, a request form as a partial map from field names to strings, and every raised
  exception as a value of type \<open>error\<close>. A handler takes the store and returns either an
  error (the store is then left as it was, nothing having been committed) or the new store
  together with the response.

  Limits of the storage engine (64-bit integers, column widths) are not modelled: integers
  are Python's unbounded ones. Strings are lists of characters with code points below 256.
\<close>

subsection \<open>Python built-ins used by the handlers\<close>

datatype error =
    ValueError | BadRequestKeyError | IntegrityError | OverflowError | ZeroDivisionError

text \<open>\<^verbatim>\<open>s.lstrip(c)\<close> for a one-character argument: every leading \<open>c\<close> is removed.\<close>

definition lstrip :: "char \<Rightarrow> string \<Rightarrow> string" where
  "lstrip c s = dropWhile (\<lambda>x. x = c) s"

definition is_space :: "char \<Rightarrow> bool" where
  "is_space c = ((of_char c :: nat) \<in> {9, 10, 11, 12, 13, 28, 29, 30, 31, 32, 133, 160})"

definition strip :: "string \<Rightarrow> string" where
  "strip s = rev (dropWhile is_space (rev (dropWhile is_space s)))"

definition is_digit :: "char \<Rightarrow> bool" where
  "is_digit c = (48 \<le> (of_char c :: nat) \<and> (of_char c :: nat) \<le> 57)"

definition digit_val :: "char \<Rightarrow> nat" where
  "digit_val c = of_char c - 48"

text \<open>
  The digits of a decimal literal, read left to right with the value so far; a single
  underscore is allowed between two digits.
\<close>

fun parse_digits :: "nat \<Rightarrow> string \<Rightarrow> nat option" where
  "parse_digits acc [] = Some acc"
| "parse_digits acc [c] = (if is_digit c then Some (10 * acc + digit_val c) else None)"
| "parse_digits acc (c # d # cs) =
     (if is_digit c then parse_digits (10 * acc + digit_val c) (d # cs)
      else if c = CHR ''_'' \<and> is_digit d then parse_digits (10 * acc + digit_val d) cs
      else None)"

definition parse_nat :: "string \<Rightarrow> nat option" where
  "parse_nat s = (case s of [] \<Rightarrow> None
                  | c # cs \<Rightarrow> if is_digit c then parse_digits (digit_val c) cs else
                      None)"

text \<open>
  \<^verbatim>\<open>int(s)\<close> on a string: surrounding white space is dropped, one sign is allowed, the rest
  is a decimal literal. \<open>None\<close> stands for the \<^verbatim>\<open>ValueError\<close> that Python raises.
\<close>

definition py_int :: "string \<Rightarrow> int option" where
  "py_int s =
     (case strip s of
        [] \<Rightarrow> None
      | c # cs \<Rightarrow>
          if c = CHR ''-'' then map_option (\<lambda>n. - int n) (parse_nat cs)
          else if c = CHR ''+'' then map_option int (parse_nat cs)
          else map_option int (parse_nat (c # cs)))"

definition digit_char :: "nat \<Rightarrow> char" where
  "digit_char n = ''0123456789'' ! n"

fun digits_of :: "nat \<Rightarrow> string" where
  "digits_of n =
      (if n < 10 then [digit_char n] else digits_of (n div 10) @ [digit_char (n mod 10)])"

declare digits_of.simps [simp del]

text \<open>\<^verbatim>\<open>str(n).zfill(w)\<close> for a natural number.\<close>

definition zfill :: "nat \<Rightarrow> nat \<Rightarrow> string" where
  "zfill w n = replicate (w - length (digits_of n)) CHR ''0'' @ digits_of n"

text \<open>
  The format \<^verbatim>\<open>{n:03d}\<close>: the sign counts towards the width of three, and a number that
  needs more room takes it.
\<close>

definition fmt_03d :: "int \<Rightarrow> string" where
  "fmt_03d n = (if n < 0 then CHR ''-'' # zfill 2 (nat (- n)) else zfill 3 (nat n))"

text \<open>\<^verbatim>\<open>str(n)\<close> for an integer.\<close>

definition py_str :: "int \<Rightarrow> string" where
  "py_str n = (if n < 0 then CHR ''-'' # digits_of (nat (- n)) else digits_of (nat n))"

text \<open>
  A form is what \<^verbatim>\<open>request.form.get\<close> answers for each field name. In \<^verbatim>\<open>v or dflt\<close> a
  missing field and an empty one both give the default: a computation that may raise
  (\<open>str_or\<close>), a string (\<open>str_or_default\<close>) or \<^verbatim>\<open>None\<close> (\<open>str_or_None\<close>).
\<close>

type_synonym form = "string \<rightharpoonup> string"

definition str_or :: "string option \<Rightarrow> 'a + string \<Rightarrow> 'a + string" where
  "str_or v dflt = (case v of None \<Rightarrow> dflt | Some s \<Rightarrow> if s =
      [] then dflt else Inr s)"

definition str_or_default :: "string option \<Rightarrow> string \<Rightarrow> string" where
  "str_or_default v dflt = (case v of None \<Rightarrow> dflt | Some s \<Rightarrow> if s =
      [] then dflt else s)"

definition str_or_None :: "string option \<Rightarrow> string option" where
  "str_or_None v = (case v of None \<Rightarrow> None | Some s \<Rightarrow> if s =
      [] then None else Some s)"

text \<open>\<^verbatim>\<open>int(v or 0)\<close>.\<close>

definition int_or_0 :: "string option \<Rightarrow> int option" where
  "int_or_0 v = (case v of None \<Rightarrow> Some 0 | Some s \<Rightarrow> if s =
      [] then Some 0 else py_int s)"

subsection \<open>Dates\<close>

text \<open>
  A \<^verbatim>\<open>datetime.date\<close> is the triple of year, month and day; the lexicographic order on
  triples is the chronological order. The parser \<^verbatim>\<open>datetime.datetime.fromisoformat\<close>
  belongs to the Python library and accepts different strings in different versions, so
  the handlers take it (composed with \<^verbatim>\<open>.date()\<close>) from the environment, together with the
  current date.
\<close>

type_synonym date = "nat \<times> nat \<times> nat"

definition isoformat :: "date \<Rightarrow> string" where
  "isoformat d = (case d of (y, m,
      dd) \<Rightarrow> zfill 4 y @ ''-'' @ zfill 2 m @ ''-'' @ zfill 2 dd)"

record env =
  today :: date
  fromisoformat :: "string \<Rightarrow> date option"

subsection \<open>The tables\<close>

record customer =
  c_id :: nat
  c_customer_id :: string
  c_name :: string
  c_insta :: "string option"
  c_phone :: "string option"
  c_city :: "string option"
  c_ctype :: "string option"
  c_notes :: "string option"

record order =
  o_id :: nat
  o_order_id :: string
  o_date :: "date option"
  o_customer_id :: string
  o_saree_type :: "string option"
  o_amount :: "int option"
  o_payment_status :: "string option"
  o_delivery_status :: "string option"
  o_remarks :: "string option"

record followup =
  f_id :: nat
  f_fu_id :: string
  f_date :: "date option"
  f_customer_name :: "string option"
  f_insta :: "string option"
  f_topic :: "string option"
  f_next_date :: "date option"
  f_status :: "string option"
  f_remarks :: "string option"

record db =
  customer_rows :: "customer list"
  order_rows :: "order list"
  followup_rows :: "followup list"

subsection \<open>Queries\<close>

text \<open>
  \<^verbatim>\<open>.order_by(key.desc())\<close>, \<^verbatim>\<open>.first()\<close> and \<^verbatim>\<open>.filter_by(col=v).first()\<close>. A null key is
  the least one, as in the store. Rows with equal keys come in an order that the store is
  free to choose; the model returns them in one fixed order, and no property below
  depends on it.
\<close>

definition order_by_desc :: "('r \<Rightarrow> 'k::linorder) \<Rightarrow> 'r list \<Rightarrow> 'r
    list" where
  "order_by_desc key rows = rev (sort_key key rows)"

definition first :: "'r list \<Rightarrow> 'r option" where
  "first rows = (case rows of [] \<Rightarrow> None | r # _ \<Rightarrow> Some r)"

definition filter_by_first :: "('r \<Rightarrow> 'v) \<Rightarrow> 'v \<Rightarrow> 'r list
    \<Rightarrow> 'r option" where
  "filter_by_first col v rows = first (filter (\<lambda>r. col r = v) rows)"

subsection \<open>Identifier generator\<close>

definition next_customer_id :: "db \<Rightarrow> error + string" where
  "next_customer_id d =
     (case first (order_by_desc c_id (customer_rows d)) of
        None \<Rightarrow> Inr ''C001''
      | Some c \<Rightarrow>
          (case py_int (lstrip CHR ''C'' (c_customer_id c)) of
             None \<Rightarrow> Inl ValueError
           | Some m \<Rightarrow> Inr (CHR ''C'' # fmt_03d (m + 1))))"

definition next_order_id :: "db \<Rightarrow> error + string" where
  "next_order_id d =
     (case first (order_by_desc o_id (order_rows d)) of
        None \<Rightarrow> Inr ''O001''
      | Some r \<Rightarrow>
          (case py_int (lstrip CHR ''O'' (o_order_id r)) of
             None \<Rightarrow> Inl ValueError
           | Some m \<Rightarrow> Inr (CHR ''O'' # fmt_03d (m + 1))))"

definition next_fu_id :: "db \<Rightarrow> error + string" where
  "next_fu_id d =
     (case first (order_by_desc f_id (followup_rows d)) of
        None \<Rightarrow> Inr ''F001''
      | Some f \<Rightarrow>
          (case py_int (lstrip CHR ''F'' (f_fu_id f)) of
             None \<Rightarrow> Inl ValueError
           | Some m \<Rightarrow> Inr (CHR ''F'' # fmt_03d (m + 1))))"

subsection \<open>Writes to a table\<close>

text \<open>
  The store gives a new row the largest row id of its table plus one (an integer primary
  key without \<^verbatim>\<open>AUTOINCREMENT\<close>); the session updates and deletes a loaded row through
  its primary key.
\<close>

definition next_rowid :: "nat list \<Rightarrow> nat" where
  "next_rowid ids = Suc (fold max ids 0)"

definition update_row :: "('r \<Rightarrow> nat) \<Rightarrow> 'r \<Rightarrow> ('r \<Rightarrow>
    'r) \<Rightarrow> 'r list \<Rightarrow> 'r list" where
  "update_row rid existing f rows = map (\<lambda>r. if rid r = rid existing then f r else r) rows"

definition delete_row :: "('r \<Rightarrow> nat) \<Rightarrow> 'r \<Rightarrow> 'r list
    \<Rightarrow> 'r list" where
  "delete_row rid existing rows = filter (\<lambda>r. rid r \<noteq> rid existing) rows"

subsection \<open>Requests and responses\<close>

text \<open>
  A response is a redirect or a rendered page; of a page the model keeps the rows handed to
  the template, in their order.
\<close>

datatype request = GET | POST form

datatype response =
    Redirect string
  | CustomersPage "customer list"
  | OrdersPage "order list" "customer list"
  | FollowupsPage "followup list"

subsection \<open>Customers\<close>

definition customers_page :: "db \<Rightarrow> response" where
  "customers_page d = CustomersPage (order_by_desc c_id (customer_rows d))"

definition customers :: "db \<Rightarrow> request \<Rightarrow> error + db \<times> response" where
  "customers d req =
     (case req of
        GET \<Rightarrow> Inr (d, customers_page d)
      | POST form \<Rightarrow>
          (case str_or (form ''customer_id'') (next_customer_id d) of
             Inl e \<Rightarrow> Inl e
           | Inr cid \<Rightarrow>
               (case filter_by_first c_customer_id cid (customer_rows d) of
                  Some existing \<Rightarrow>
                    if form ''_method'' = Some ''PUT'' then
                      (case form ''name'' of
                         None \<Rightarrow> Inl BadRequestKeyError
                       | Some nm \<Rightarrow>
                           Inr (d\<lparr>customer_rows :=
                                    update_row c_id existing
                                      (\<lambda>r. r\<lparr>c_name := nm, c_insta := form ''insta'',
                                              c_phone := form ''phone'', c_city := form ''city'',
                                              c_ctype := form ''ctype'',
                                                  c_notes := form ''notes''\<rparr>)
                                      (customer_rows d)\<rparr>,
                                Redirect ''/customers''))
                    else if form ''_method'' = Some ''DELETE'' then
                      Inr (d\<lparr>customer_rows := delete_row c_id existing (customer_rows
                          d)\<rparr>,
                           Redirect ''/customers'')
                    else Inr (d, customers_page d)
                | None \<Rightarrow>
                    (case form ''name'' of
                       None \<Rightarrow> Inl BadRequestKeyError
                     | Some nm \<Rightarrow>
                         Inr (d\<lparr>customer_rows := customer_rows d @
                                  [\<lparr>c_id = next_rowid (map c_id (customer_rows d)),
                                    c_customer_id = cid, c_name = nm, c_insta = form ''insta'',
                                    c_phone = form ''phone'', c_city = form ''city'',
                                    c_ctype = form ''ctype'',
                                        c_notes = form ''notes''\<rparr>]\<rparr>,
                              Redirect ''/customers'')))))"

subsection \<open>Orders\<close>

definition orders_page :: "db \<Rightarrow> response" where
  "orders_page d = OrdersPage (order_by_desc o_date (order_rows d)) (customer_rows d)"

text \<open>
  The date is parsed before the branch is chosen. The amount is parsed inside the update
  and insert branches, and the missing customer of an order is refused by the store at
  commit (the column is \<^verbatim>\<open>NOT NULL\<close>).
\<close>

definition orders :: "env \<Rightarrow> db \<Rightarrow> request \<Rightarrow> error + db \<times>
    response" where
  "orders ev d req =
     (case req of
        GET \<Rightarrow> Inr (d, orders_page d)
      | POST form \<Rightarrow>
          (case str_or (form ''order_id'') (next_order_id d) of
             Inl e \<Rightarrow> Inl e
           | Inr oid \<Rightarrow>
               let date = str_or_default (form ''date'') (isoformat (today ev))
               in (case fromisoformat ev date of
                     None \<Rightarrow> Inl ValueError
                   | Some date_obj \<Rightarrow>
                       (case filter_by_first o_order_id oid (order_rows d) of
                          Some existing \<Rightarrow>
                            if form ''_method'' = Some ''PUT'' then
                              (case int_or_0 (form ''amount'') of
                                 None \<Rightarrow> Inl ValueError
                               | Some amt \<Rightarrow>
                                   (case form ''customer_id'' of
                                      None \<Rightarrow> Inl IntegrityError
                                    | Some cu \<Rightarrow>
                                        Inr (d\<lparr>order_rows :=
                                                 update_row o_id existing
                                                   (\<lambda>r. r\<lparr>o_date := Some date_obj,
                                                           o_customer_id := cu,
                                                           o_saree_type := form ''saree_type'',
                                                           o_amount := Some amt,
                                                           o_payment_status := form
                                                               ''payment_status'',
                                                           o_delivery_status := form
                                                               ''delivery_status'',
                                                           o_remarks := form ''remarks''\<rparr>)
                                                   (order_rows d)\<rparr>,
                                             Redirect ''/orders'')))
                            else if form ''_method'' = Some ''DELETE'' then
                              Inr (d\<lparr>order_rows := delete_row o_id existing (order_rows
                                  d)\<rparr>,
                                   Redirect ''/orders'')
                            else Inr (d, orders_page d)
                        | None \<Rightarrow>
                            (case int_or_0 (form ''amount'') of
                               None \<Rightarrow> Inl ValueError
                             | Some amt \<Rightarrow>
                                 (case form ''customer_id'' of
                                    None \<Rightarrow> Inl IntegrityError
                                  | Some cu \<Rightarrow>
                                      Inr (d\<lparr>order_rows := order_rows d @
                                               [\<lparr>o_id = next_rowid (map o_id (order_rows d)),
                                                 o_order_id = oid, o_date = Some date_obj,
                                                 o_customer_id = cu,
                                                 o_saree_type = form ''saree_type'',
                                                 o_amount = Some amt,
                                                 o_payment_status = form ''payment_status'',
                                                 o_delivery_status = form ''delivery_status'',
                                                 o_remarks = form ''remarks''\<rparr>]\<rparr>,
                                           Redirect ''/orders'')))))))"

subsection \<open>Follow-ups\<close>

text \<open>\<^verbatim>\<open>.order_by(col.asc().nulls_last())\<close>: rows with a value first, by value; then the rest.\<close>

definition order_by_asc_nulls_last :: "('r \<Rightarrow> 'k::linorder option) \<Rightarrow> 'r list
    \<Rightarrow> 'r list" where
  "order_by_asc_nulls_last col rows = sort_key (\<lambda>r. (col r = None, col r)) rows"

definition followups_page :: "db \<Rightarrow> response" where
  "followups_page d = FollowupsPage (order_by_asc_nulls_last f_next_date (followup_rows d))"

text \<open>
  Here only \<^verbatim>\<open>next_date\<close> is parsed before the branch is chosen; \<^verbatim>\<open>date\<close> is parsed
  inside the update and insert branches.
\<close>

text \<open>\<^verbatim>\<open>nd = datetime.datetime.fromisoformat(next_date).date() if next_date else None\<close>\<close>

definition parse_next_date :: "env \<Rightarrow> string option \<Rightarrow> error + date option"
    where
  "parse_next_date ev next_date =
     (case next_date of
        None \<Rightarrow> Inr None
      | Some s \<Rightarrow> (case fromisoformat ev s of None \<Rightarrow> Inl ValueError | Some x
          \<Rightarrow> Inr (Some x)))"

definition followups :: "env \<Rightarrow> db \<Rightarrow> request \<Rightarrow> error + db
    \<times> response" where
  "followups ev d req =
     (case req of
        GET \<Rightarrow> Inr (d, followups_page d)
      | POST form \<Rightarrow>
          (case str_or (form ''fu_id'') (next_fu_id d) of
             Inl e \<Rightarrow> Inl e
           | Inr fid \<Rightarrow>
               let date = str_or_default (form ''date'') (isoformat (today ev))
               in (case parse_next_date ev (str_or_None (form ''next_date'')) of
                     Inl e \<Rightarrow> Inl e
                   | Inr nd \<Rightarrow>
                       (case filter_by_first f_fu_id fid (followup_rows d) of
                          Some existing \<Rightarrow>
                            if form ''_method'' = Some ''PUT'' then
                              (case fromisoformat ev date of
                                 None \<Rightarrow> Inl ValueError
                               | Some date_obj \<Rightarrow>
                                   Inr (d\<lparr>followup_rows :=
                                            update_row f_id existing
                                              (\<lambda>r. r\<lparr>f_date := Some date_obj,
                                                      f_customer_name := form ''customer_name'',
                                                      f_insta := form ''insta'',
                                                      f_topic := form ''topic'',
                                                      f_next_date := nd,
                                                      f_status := form ''status'',
                                                      f_remarks := form ''remarks''\<rparr>)
                                              (followup_rows d)\<rparr>,
                                        Redirect ''/followups''))
                            else if form ''_method'' = Some ''DELETE'' then
                              Inr (d\<lparr>followup_rows := delete_row f_id existing (followup_rows
                                  d)\<rparr>,
                                   Redirect ''/followups'')
                            else Inr (d, followups_page d)
                        | None \<Rightarrow>
                            (case fromisoformat ev date of
                               None \<Rightarrow> Inl ValueError
                             | Some date_obj \<Rightarrow>
                                 Inr (d\<lparr>followup_rows := followup_rows d @
                                          [\<lparr>f_id = next_rowid (map f_id (followup_rows d)),
                                            f_fu_id = fid, f_date = Some date_obj,
                                            f_customer_name = form ''customer_name'',
                                            f_insta = form ''insta'', f_topic = form ''topic'',
                                            f_next_date = nd, f_status = form ''status'',
                                            f_remarks = form ''remarks''\<rparr>]\<rparr>,
                                      Redirect ''/followups''))))))"

subsection \<open>Dashboard\<close>

text \<open>
  A Python \<^verbatim>\<open>float\<close> is kept as a pair \<open>(m, e)\<close> that stands for \<open>m * 2 ^ e\<close>. The quotient
  \<^verbatim>\<open>a / b\<close> of two integers is the binary64 number nearest to the exact quotient, ties to
  the even significand: 53 bits of significand, no exponent below \<open>-1074\<close>, and
  \<^verbatim>\<open>OverflowError\<close> from \<open>2 ^ 1024\<close> on.
\<close>

type_synonym pyfloat = "int \<times> int"

function bit_length :: "int \<Rightarrow> nat" where
  "bit_length n = (if n \<le> 0 then 0 else Suc (bit_length (n div 2)))"
  by pat_completeness auto
termination
  by (relation "measure nat") auto

declare bit_length.simps [simp del]

text \<open>\<open>\<lfloor>log\<^sub>2 (n / d)\<rfloor>\<close> for positive \<open>n\<close> and \<open>d\<close>.\<close>

definition floor_log2 :: "int \<Rightarrow> int \<Rightarrow> int" where
  "floor_log2 n d =
     (let k = int (bit_length n) - int (bit_length d)
      in if (if 0 \<le> k then d * 2 ^ nat k \<le> n else d \<le> n * 2 ^ nat (- k)) then k else k -
          1)"

text \<open>The integer nearest to \<open>n / d\<close>, the even one of two equally near.\<close>

definition round_half_even :: "int \<Rightarrow> int \<Rightarrow> int" where
  "round_half_even n d =
     (let q = n div d; r = n mod d
      in if 2 * r < d then q else if d < 2 * r then q + 1 else if even q then q else q + 1)"

definition true_divide :: "int \<Rightarrow> int \<Rightarrow> error + pyfloat" where
  "true_divide a b =
     (if b = 0 then Inl ZeroDivisionError
      else if a = 0 then Inr (0, 0)
      else
        let n = \<bar>a\<bar>; d = \<bar>b\<bar>;
            e = max (floor_log2 n d - 52) (- 1074);
            m = (if 0 \<le> e then round_half_even n (d * 2 ^ nat e)
                 else round_half_even (n * 2 ^ nat (- e)) d)
        in if 0 \<le> e \<and> 2 ^ 1024 \<le> m * 2 ^ nat e then Inl OverflowError
           else Inr (sgn a * sgn b * m, e))"

text \<open>\<^verbatim>\<open>int(x)\<close> on a float drops the fraction, towards zero.\<close>

definition int_of_float :: "pyfloat \<Rightarrow> int" where
  "int_of_float x =
     (case x of (m,
         e) \<Rightarrow> if 0 \<le> e then m * 2 ^ nat e else sgn m * (\<bar>m\<bar> div 2 ^ nat (-
         e)))"

text \<open>The aggregate \<^verbatim>\<open>SUM\<close> skips nulls and is null when nothing is left.\<close>

definition non_null :: "'a option list \<Rightarrow> 'a list" where
  "non_null vs =
      concat (map (\<lambda>v. case v of None \<Rightarrow> [] | Some x \<Rightarrow> [x]) vs)"

definition sql_sum :: "int option list \<Rightarrow> int option" where
  "sql_sum vs = (if non_null vs = [] then None else Some (sum_list (non_null vs)))"

definition total_customers :: "db \<Rightarrow> nat" where
  "total_customers d = length (customer_rows d)"

definition total_orders :: "db \<Rightarrow> nat" where
  "total_orders d = length (order_rows d)"

definition total_sales :: "db \<Rightarrow> int" where
  "total_sales d =
      (case sql_sum (map o_amount (order_rows d)) of None \<Rightarrow> 0 | Some s \<Rightarrow> s)"

definition avg_order :: "db \<Rightarrow> error + int" where
  "avg_order d =
     (if total_orders d \<noteq> 0 then
        (case true_divide (total_sales d) (int (total_orders d)) of
           Inl e \<Rightarrow> Inl e
         | Inr x \<Rightarrow> Inr (int_of_float x))
      else Inr 0)"

definition pending_payments :: "db \<Rightarrow> nat" where
  "pending_payments d = length (filter (\<lambda>r. o_payment_status r =
      Some ''Pending'') (order_rows d))"

definition pending_delivery :: "db \<Rightarrow> nat" where
  "pending_delivery d = length (filter (\<lambda>r. o_delivery_status r =
      Some ''Pending'') (order_rows d))"

definition pending_followups :: "db \<Rightarrow> nat" where
  "pending_followups d = length (filter (\<lambda>r. f_status r =
      Some ''Pending'') (followup_rows d))"

text \<open>
  \<^verbatim>\<open>GROUP BY col\<close> makes one group for each value of the column, null included. The order
  in which a query returns rows that its \<^verbatim>\<open>ORDER BY\<close> does not tell apart is left to the
  store; the model returns them in one fixed order.
\<close>

definition group_keys :: "('r \<Rightarrow> 'k) \<Rightarrow> 'r list \<Rightarrow> 'k list" where
  "group_keys col rows = remdups (map col rows)"

definition q2 :: "db \<Rightarrow> (string option \<times> nat) list" where
  "q2 d = map (\<lambda>t. (t, length (filter (\<lambda>r. o_saree_type r = t) (order_rows d))))
              (group_keys o_saree_type (order_rows d))"

definition saree_dist :: "db \<Rightarrow> (string \<times> nat) list" where
  "saree_dist d =
     map (\<lambda>r. (case fst r of None \<Rightarrow> ''Unknown'' | Some s \<Rightarrow> if s =
         [] then ''Unknown'' else s,
               snd r))
         (q2 d)"

definition q3 :: "db \<Rightarrow> (string \<times> int option) list" where
  "q3 d = take 5 (order_by_desc snd
             (map (\<lambda>k. (k,
                 sql_sum (map o_amount (filter (\<lambda>r. o_customer_id r = k) (order_rows d)))))
                  (group_keys o_customer_id (order_rows d))))"

definition topc :: "db \<Rightarrow> (string \<times> int option) list" where
  "topc d =
     map (\<lambda>r. (case filter_by_first c_customer_id (fst r) (customer_rows d) of
                  Some cust \<Rightarrow> c_name cust
                | None \<Rightarrow> fst r,
               snd r))
         (q3 d)"

text \<open>
  What the dashboard hands to its template. The monthly series (grouped through the
  store's \<^verbatim>\<open>strftime\<close>) is left out.
\<close>

record dashboard_page =
  p_total_customers :: nat
  p_total_orders :: nat
  p_total_sales :: int
  p_avg_order :: int
  p_pending_payments :: nat
  p_pending_delivery :: nat
  p_pending_followups :: nat
  p_saree_dist :: "(string \<times> nat) list"
  p_topc :: "(string \<times> int option) list"

definition dashboard :: "db \<Rightarrow> error + dashboard_page" where
  "dashboard d =
     (case avg_order d of
        Inl e \<Rightarrow> Inl e
      | Inr a \<Rightarrow>
          Inr \<lparr>p_total_customers = total_customers d, p_total_orders = total_orders d,
               p_total_sales = total_sales d, p_avg_order = a,
               p_pending_payments = pending_payments d, p_pending_delivery = pending_delivery d,
               p_pending_followups = pending_followups d, p_saree_dist = saree_dist d,
               p_topc = topc d\<rparr>)"

subsection \<open>CSV export\<close>

text \<open>
  \<^verbatim>\<open>csv.writer\<close> with its default dialect: fields joined by commas, a field quoted when it
  holds a comma, a quote, a carriage return or a line feed, quotes doubled inside, every
  row closed by carriage return and line feed; a row that is one empty field is written as
  two quotes. \<^verbatim>\<open>None\<close> is written as the empty string, anything else through \<^verbatim>\<open>str\<close>.
\<close>

datatype cell = NullCell | StrCell string | IntCell int | DateCell date

definition cell_text :: "cell \<Rightarrow> string" where
  "cell_text v =
      (case v of NullCell \<Rightarrow> [] | StrCell s \<Rightarrow> s | IntCell i \<Rightarrow>
      py_str i | DateCell dt \<Rightarrow> isoformat dt)"

definition CR :: char where "CR = CHR 0x0D"

definition LF :: char where "LF = CHR 0x0A"

definition needs_quote :: "string \<Rightarrow> bool" where
  "needs_quote s = (filter (\<lambda>c. c = CHR '','' \<or> c = CHR 0x22 \<or> c = CR \<or> c =
      LF) s \<noteq> [])"

definition csv_field :: "string \<Rightarrow> string" where
  "csv_field s =
     (if needs_quote s
      then CHR 0x22 # concat (map (\<lambda>c. if c = CHR 0x22 then [c, c] else [c]) s) @ [CHR 0x22]
      else s)"

fun join_comma :: "string list \<Rightarrow> string" where
  "join_comma [] = []"
| "join_comma [x] = x"
| "join_comma (x # y # ys) = x @ CHR '','' # join_comma (y # ys)"

definition writerow :: "string list \<Rightarrow> string" where
  "writerow row =
     (if row = [[]] then [CHR 0x22, CHR 0x22] else join_comma (map csv_field row)) @ [CR, LF]"

definition opt_str :: "string option \<Rightarrow> cell" where
  "opt_str v = (case v of None \<Rightarrow> NullCell | Some s \<Rightarrow> StrCell s)"

definition opt_date :: "date option \<Rightarrow> cell" where
  "opt_date v = (case v of None \<Rightarrow> NullCell | Some dt \<Rightarrow> DateCell dt)"

definition opt_int :: "int option \<Rightarrow> cell" where
  "opt_int v = (case v of None \<Rightarrow> NullCell | Some i \<Rightarrow> IntCell i)"

text \<open>\<^verbatim>\<open>getattr(r, c)\<close> on the column attributes of a row; \<open>None\<close> when \<^verbatim>\<open>hasattr\<close> is false.\<close>

definition customer_getattr :: "customer \<Rightarrow> string \<Rightarrow> cell option" where
  "customer_getattr r c =
     (if c = ''id'' then Some (IntCell (int (c_id r)))
      else if c = ''customer_id'' then Some (StrCell (c_customer_id r))
      else if c = ''name'' then Some (StrCell (c_name r))
      else if c = ''insta'' then Some (opt_str (c_insta r))
      else if c = ''phone'' then Some (opt_str (c_phone r))
      else if c = ''city'' then Some (opt_str (c_city r))
      else if c = ''ctype'' then Some (opt_str (c_ctype r))
      else if c = ''notes'' then Some (opt_str (c_notes r))
      else None)"

definition order_getattr :: "order \<Rightarrow> string \<Rightarrow> cell option" where
  "order_getattr r c =
     (if c = ''id'' then Some (IntCell (int (o_id r)))
      else if c = ''order_id'' then Some (StrCell (o_order_id r))
      else if c = ''date'' then Some (opt_date (o_date r))
      else if c = ''customer_id'' then Some (StrCell (o_customer_id r))
      else if c = ''saree_type'' then Some (opt_str (o_saree_type r))
      else if c = ''amount'' then Some (opt_int (o_amount r))
      else if c = ''payment_status'' then Some (opt_str (o_payment_status r))
      else if c = ''delivery_status'' then Some (opt_str (o_delivery_status r))
      else if c = ''remarks'' then Some (opt_str (o_remarks r))
      else None)"

definition followup_getattr :: "followup \<Rightarrow> string \<Rightarrow> cell option" where
  "followup_getattr r c =
     (if c = ''id'' then Some (IntCell (int (f_id r)))
      else if c = ''fu_id'' then Some (StrCell (f_fu_id r))
      else if c = ''date'' then Some (opt_date (f_date r))
      else if c = ''customer_name'' then Some (opt_str (f_customer_name r))
      else if c = ''insta'' then Some (opt_str (f_insta r))
      else if c = ''topic'' then Some (opt_str (f_topic r))
      else if c = ''next_date'' then Some (opt_date (f_next_date r))
      else if c = ''status'' then Some (opt_str (f_status r))
      else if c = ''remarks'' then Some (opt_str (f_remarks r))
      else None)"

text \<open>The text that \<^verbatim>\<open>rows_to_csv\<close> writes to its file.\<close>

definition row_fields :: "('r \<Rightarrow> string \<Rightarrow> cell option) \<Rightarrow> string
    list \<Rightarrow> 'r \<Rightarrow> string list" where
  "row_fields getattr cols r =
     map (\<lambda>c. case getattr r c of Some v \<Rightarrow> cell_text v | None \<Rightarrow> [])
         cols"

definition rows_to_csv :: "('r \<Rightarrow> string \<Rightarrow> cell option) \<Rightarrow> 'r list
    \<Rightarrow> string list \<Rightarrow> string" where
  "rows_to_csv getattr rows cols =
     writerow cols @ concat (map (\<lambda>r. writerow (row_fields getattr cols r)) rows)"

definition customer_cols :: "string list" where
  "customer_cols = [''customer_id'', ''name'', ''insta'', ''phone'', ''city'', ''ctype'',
      ''notes'']"

definition order_cols :: "string list" where
  "order_cols = [''order_id'', ''date'', ''customer_id'', ''saree_type'', ''amount'',
                 ''payment_status'', ''delivery_status'', ''remarks'']"

definition followup_cols :: "string list" where
  "followup_cols = [''fu_id'', ''date'', ''customer_name'', ''insta'', ''topic'', ''next_date'',
                    ''status'', ''remarks'']"

definition export_customers :: "db \<Rightarrow> string" where
  "export_customers d = rows_to_csv customer_getattr (customer_rows d) customer_cols"

definition export_orders :: "db \<Rightarrow> string" where
  "export_orders d = rows_to_csv order_getattr (order_rows d) order_cols"

definition export_followups :: "db \<Rightarrow> string" where
  "export_followups d = rows_to_csv followup_getattr (followup_rows d) followup_cols"

subsection \<open>Notions used to state the properties\<close>

text \<open>The value of a string of decimal digits, and what a zero-padded number looks like.\<close>

definition decimal_value :: "string \<Rightarrow> nat" where
  "decimal_value ds = foldl (\<lambda>a c. 10 * a + digit_val c) 0 ds"







subsection \<open>Sample data\<close>

text \<open>
  The environment of the examples parses the ten-character form \<^verbatim>\<open>YYYY-MM-DD\<close> only.
  Every version of the library reads such a string as this parser does, and rejects the
  strings that the examples use as malformed.
\<close>

definition days_in_month :: "nat \<Rightarrow> nat \<Rightarrow> nat" where
  "days_in_month y m =
     (if m = 2 then (if y mod 4 = 0 \<and>
         (y mod 100 \<noteq> 0 \<or> y mod 400 = 0) then 29 else 28)
      else if m = 4 \<or> m = 6 \<or> m = 9 \<or> m = 11 then 30 else 31)"

definition date_only :: "string \<Rightarrow> date option" where
  "date_only s =
     (let y = decimal_value (take 4 s); m = decimal_value (take 2 (drop 5 s));
          dd = decimal_value (drop 8 s)
      in if length s = 10 \<and> list_all is_digit (take 4 s) \<and> s ! 4 = CHR ''-'' \<and>
            list_all is_digit (take 2 (drop 5 s)) \<and> s ! 7 = CHR ''-'' \<and>
            list_all is_digit (drop 8 s) \<and>
            1 \<le> y \<and> 1 \<le> m \<and> m \<le> 12 \<and> 1 \<le> dd \<and>
                dd \<le> days_in_month y m
         then Some (y, m, dd) else None)"

definition sample_env :: env where
  "sample_env = \<lparr>today = (2024, 6, 15), fromisoformat = date_only\<rparr>"

definition empty_db :: db where
  "empty_db = \<lparr>customer_rows = [], order_rows = [], followup_rows = []\<rparr>"

text \<open>The rows that the application seeds an empty store with, at fixed dates.\<close>

definition priya :: customer where
  "priya = \<lparr>c_id = 1, c_customer_id = ''C001'', c_name = ''Priya Reddy'',
            c_insta = Some ''@priyareddy'', c_phone = Some ''9876543210'',
            c_city = Some ''Hyderabad'', c_ctype = Some ''Regular'',
            c_notes = Some ''Loves soft silk sarees''\<rparr>"

definition kavya :: customer where
  "kavya = \<lparr>c_id = 2, c_customer_id = ''C002'', c_name = ''Kavya Sharma'',
            c_insta = Some ''@kavya.s'', c_phone = Some ''9988776655'',
            c_city = Some ''Bengaluru'', c_ctype = Some ''New'',
            c_notes = Some ''Asked about Banarasi''\<rparr>"

definition meena :: customer where
  "meena = \<lparr>c_id = 3, c_customer_id = ''C003'', c_name = ''Meena Patel'',
            c_insta = Some ''@meenap'', c_phone = Some ''9123456780'',
            c_city = Some ''Mumbai'', c_ctype = Some ''VIP'',
            c_notes = Some ''Prefers pastel colors''\<rparr>"

definition order1 :: order where
  "order1 = \<lparr>o_id = 1, o_order_id = ''O001'', o_date = Some (2024, 4, 16),
             o_customer_id = ''C001'', o_saree_type = Some ''Soft Silk'', o_amount = Some 2500,
             o_payment_status = Some ''Paid'', o_delivery_status = Some ''Delivered'',
             o_remarks = None\<rparr>"

definition order2 :: order where
  "order2 = \<lparr>o_id = 2, o_order_id = ''O002'', o_date = Some (2024, 5, 1),
             o_customer_id = ''C003'', o_saree_type = Some ''Chiffon Floral'',
             o_amount = Some 1800, o_payment_status = Some ''Paid'',
             o_delivery_status = Some ''Delivered'', o_remarks = None\<rparr>"

definition order3 :: order where
  "order3 = \<lparr>o_id = 3, o_order_id = ''O003'', o_date = Some (2024, 5, 16),
             o_customer_id = ''C002'', o_saree_type = Some ''Banarasi'', o_amount = Some 3200,
             o_payment_status = Some ''Paid'', o_delivery_status = Some ''Delivered'',
             o_remarks = None\<rparr>"

definition followup1 :: followup where
  "followup1 = \<lparr>f_id = 1, f_fu_id = ''F001'', f_date = Some (2024, 6, 5),
                f_customer_name = Some ''Kavya Sharma'', f_insta = Some ''@kavya.s'',
                f_topic = Some ''Interested in Banarasi saree'',
                f_next_date = Some (2024, 6, 17), f_status = Some ''Pending'',
                f_remarks = Some ''Send new arrivals images''\<rparr>"

definition seeded_db :: db where
  "seeded_db = \<lparr>customer_rows = [priya, kavya, meena],
                order_rows = [order1, order2, order3],
                followup_rows = [followup1]\<rparr>"

text \<open>Two customers whose identifiers were supplied by the caller, the greater one first.\<close>

definition out_of_order_db :: db where
  "out_of_order_db =
     \<lparr>customer_rows =
        [\<lparr>c_id = 1, c_customer_id = ''C005'', c_name = ''Asha'', c_insta = None,
          c_phone = None, c_city = None, c_ctype = None, c_notes = None\<rparr>,
         \<lparr>c_id = 2, c_customer_id = ''C002'', c_name = ''Bina'', c_insta = None,
          c_phone = None, c_city = None, c_ctype = None, c_notes = None\<rparr>],
      order_rows = [], followup_rows = []\<rparr>"

text \<open>Forms of the examples.\<close>

definition delete_priya :: form where
  "delete_priya = [''customer_id'' \<mapsto> ''C001'', ''_method'' \<mapsto> ''DELETE'']"

definition resubmit_priya :: form where
  "resubmit_priya = [''customer_id'' \<mapsto> ''C001'', ''name'' \<mapsto> ''Priya R'']"

definition resubmit_order1 :: form where
  "resubmit_order1 = [''order_id'' \<mapsto> ''O001'', ''customer_id'' \<mapsto> ''C001'']"

definition resubmit_order1_bad_date :: form where
  "resubmit_order1_bad_date =
     [''order_id'' \<mapsto> ''O001'', ''customer_id'' \<mapsto> ''C001'',
         ''date'' \<mapsto> ''soon'']"

definition resubmit_followup1 :: form where
  "resubmit_followup1 = [''fu_id'' \<mapsto> ''F001'', ''next_date'' \<mapsto> ''2024-07-01'']"

definition delete_order1_bad_date :: form where
  "delete_order1_bad_date =
     [''order_id'' \<mapsto> ''O001'', ''_method'' \<mapsto> ''DELETE'',
         ''date'' \<mapsto> ''soon'']"

definition delete_followup1_bad_next_date :: form where
  "delete_followup1_bad_next_date =
     [''fu_id'' \<mapsto> ''F001'', ''_method'' \<mapsto> ''DELETE'',
         ''next_date'' \<mapsto> ''soon'']"

definition update_followup1_bad_date :: form where
  "update_followup1_bad_date =
     [''fu_id'' \<mapsto> ''F001'', ''_method'' \<mapsto> ''PUT'', ''date'' \<mapsto> ''soon'']"

definition delete_followup1_bad_date :: form where
  "delete_followup1_bad_date =
     [''fu_id'' \<mapsto> ''F001'', ''_method'' \<mapsto> ''DELETE'', ''date'' \<mapsto> ''soon'']"

definition asc_nulls_last_le :: "'k::linorder option \<Rightarrow> 'k option \<Rightarrow> bool"
    where
  "asc_nulls_last_le a b =
     (case a of None \<Rightarrow> b =
         None | Some x \<Rightarrow> (case b of None \<Rightarrow> True | Some y \<Rightarrow> x
         \<le> y))"

definition order4 :: order where
  "order4 = \<lparr>o_id = 4, o_order_id = ''O004'', o_date = Some (2024, 1, 10),
             o_customer_id = ''C001'', o_saree_type = None, o_amount = Some 900,
             o_payment_status = Some ''Pending'', o_delivery_status = Some ''Pending'',
             o_remarks = None\<rparr>"

definition backdated_db :: db where
  "backdated_db = seeded_db\<lparr>order_rows := [order1, order2, order3, order4]\<rparr>"

text \<open>The store after the customer \<^verbatim>\<open>C001\<close> was deleted and an order without a type was added.\<close>

definition orphaned_db :: db where
  "orphaned_db = \<lparr>customer_rows = [kavya, meena],
                  order_rows = [order1, order2, order3, order4],
                  followup_rows = [followup1]\<rparr>"

text \<open>The sum of the amounts of the orders of one customer, as the aggregate computes it.\<close>

definition customer_total :: "db \<Rightarrow> string \<Rightarrow> int option" where
  "customer_total d k = sql_sum (map o_amount (filter (\<lambda>r. o_customer_id r =
      k) (order_rows d)))"

text \<open>The number of line feeds of a text, and a text free of line breaks.\<close>

definition line_count :: "string \<Rightarrow> nat" where
  "line_count s = count_list s LF"

definition one_line :: "string \<Rightarrow> bool" where
  "one_line s = (count_list s CR = 0 \<and> count_list s LF = 0)"

text \<open>A customer whose notes were posted with a line feed inside.\<close>

definition multiline_db :: db where
  "multiline_db =
     \<lparr>customer_rows =
        [\<lparr>c_id = 1, c_customer_id = ''C001'', c_name = ''Asha'', c_insta = None,
          c_phone = None, c_city = None, c_ctype = None,
          c_notes = Some (''silk'' @ [LF] @ ''cotton'')\<rparr>],
      order_rows = [], followup_rows = []\<rparr>"

text \<open>A store whose only order has the amount \<open>2 ^ 53 + 1\<close>.\<close>

definition huge_order_db :: db where
  "huge_order_db =
     \<lparr>customer_rows = [],
      order_rows = [\<lparr>o_id = 1, o_order_id = ''O001'', o_date = Some (2024, 6, 15),
                     o_customer_id = ''C001'', o_saree_type = None,
                     o_amount = Some 9007199254740993, o_payment_status = None,
                     o_delivery_status = None, o_remarks = None\<rparr>],
      followup_rows = []\<rparr>"









text \<open>The requests that lead from the empty store to the stores of the examples.\<close>

definition post_asha :: form where
  "post_asha = [''customer_id'' \<mapsto> ''C005'', ''name'' \<mapsto> ''Asha'']"

definition post_bina :: form where
  "post_bina = [''customer_id'' \<mapsto> ''C002'', ''name'' \<mapsto> ''Bina'']"

definition post_asha_notes :: form where
  "post_asha_notes = [''name'' \<mapsto> ''Asha'',
      ''notes'' \<mapsto> ''silk'' @ [LF] @ ''cotton'']"

definition post_huge_order :: form where
  "post_huge_order =
     [''customer_id'' \<mapsto> ''C001'', ''amount'' \<mapsto> ''9007199254740993'']"

section \<open>Properties\<close>

subsection \<open>Decimal strings\<close>

lemma digit_char_props:
  assumes "n < 10"
  shows "is_digit (digit_char n)" and "digit_val (digit_char n) = n"
    and "(digit_char n = CHR ''0'') = (n = 0)"
proof -
  from assms have "n \<in> {0, 1, 2, 3, 4, 5, 6, 7, 8, 9}" by auto
  then show "is_digit (digit_char n)" and "digit_val (digit_char n) = n"
    and "(digit_char n = CHR ''0'') = (n = 0)"
    by (auto simp: digit_char_def is_digit_def digit_val_def)
qed


lemma digits_of_all_digits: "list_all is_digit (digits_of n)"
  by (induction n rule: digits_of.induct) (subst digits_of.simps, simp add: digit_char_props)












subsection \<open>Queries\<close>

lemma sort_key_Nil_iff: "sort_key key rows = [] \<longleftrightarrow> rows = []"
  using length_sort[of key rows] by (metis length_0_conv)

lemma first_None_iff: "first xs = None \<longleftrightarrow> xs = []"
  by (cases xs) (auto simp: first_def)

lemma first_order_by_desc_None: "first (order_by_desc key rows) = None \<longleftrightarrow> rows =
    []"
  by (simp add: first_None_iff order_by_desc_def sort_key_Nil_iff)




subsection \<open>Identifier generator\<close>

lemma next_id_empty:
  "customer_rows d = [] \<Longrightarrow> next_customer_id d = Inr ''C001''"
  "order_rows d = [] \<Longrightarrow> next_order_id d = Inr ''O001''"
  "followup_rows d = [] \<Longrightarrow> next_fu_id d = Inr ''F001''"
  by (simp_all add: next_customer_id_def next_order_id_def next_fu_id_def first_def
      order_by_desc_def)







subsection \<open>Branches of the handlers\<close>

lemma str_or_truthy: "v = Some s \<Longrightarrow> s \<noteq> [] \<Longrightarrow>
    str_or v dflt = Inr s"
  by (simp add: str_or_def)

lemma next_id_error:
  "next_customer_id d = Inl e \<Longrightarrow> e = ValueError"
  "next_order_id d = Inl e \<Longrightarrow> e = ValueError"
  "next_fu_id d = Inl e \<Longrightarrow> e = ValueError"
  by (auto simp: next_customer_id_def next_order_id_def next_fu_id_def split: option.splits)

lemma str_or_next_id_error:
  "str_or v (next_customer_id d) = Inl e \<Longrightarrow> e = ValueError"
  "str_or v (next_order_id d) = Inl e \<Longrightarrow> e = ValueError"
  "str_or v (next_fu_id d) = Inl e \<Longrightarrow> e = ValueError"
  by (auto simp: str_or_def dest: next_id_error split: option.splits if_splits)


lemma delete_row_gone: "existing \<notin> set (delete_row rid existing rows)"
  by (simp add: delete_row_def)

lemma customers_delete:
  assumes "str_or (form ''customer_id'') (next_customer_id d) = Inr cid"
    and "filter_by_first c_customer_id cid (customer_rows d) = Some c"
    and "form ''_method'' = Some ''DELETE''"
  shows "customers d (POST form) =
           Inr (d\<lparr>customer_rows := delete_row c_id c (customer_rows d)\<rparr>,
               Redirect ''/customers'')"
  using assms by (simp add: customers_def)

lemma str_or_default_truthy: "v = Some s \<Longrightarrow> s \<noteq> [] \<Longrightarrow>
    str_or_default v dflt = s"
  by (simp add: str_or_default_def)

lemma str_or_None_truthy: "v = Some s \<Longrightarrow> s \<noteq> [] \<Longrightarrow>
    str_or_None v = Some s"
  by (simp add: str_or_None_def)

lemma orders_bad_date:
  assumes "form ''date'' = Some s" "s \<noteq> []" "fromisoformat ev s = None"
  shows "orders ev d (POST form) = Inl ValueError"
proof (cases "str_or (form ''order_id'') (next_order_id d)")
  case (Inl e)
  then show ?thesis using str_or_next_id_error(2)[OF Inl] by (simp add: orders_def)
next
  case (Inr oid)
  then show ?thesis using assms by (simp add: orders_def str_or_default_truthy)
qed

lemma followups_bad_next_date:
  assumes "form ''next_date'' = Some s" "s \<noteq> []" "fromisoformat ev s = None"
  shows "followups ev d (POST form) = Inl ValueError"
proof (cases "str_or (form ''fu_id'') (next_fu_id d)")
  case (Inl e)
  then show ?thesis using str_or_next_id_error(3)[OF Inl] by (simp add: followups_def)
next
  case (Inr fid)
  have "parse_next_date ev (str_or_None (form ''next_date'')) = Inl ValueError"
    using assms by (simp add: parse_next_date_def str_or_None_truthy)
  then show ?thesis using Inr by (simp add: followups_def)
qed

lemma followups_bad_date_insert:
  assumes "form ''date'' = Some s" "s \<noteq> []" "fromisoformat ev s = None"
    and "str_or (form ''fu_id'') (next_fu_id d) = Inr fid"
    and "filter_by_first f_fu_id fid (followup_rows d) = None"
  shows "followups ev d (POST form) = Inl ValueError"
proof (cases "parse_next_date ev (str_or_None (form ''next_date''))")
  case (Inl e)
  then have "e = ValueError" by (auto simp: parse_next_date_def split: option.splits)
  then show ?thesis using Inl assms(4) by (simp add: followups_def)
next
  case (Inr nd)
  then show ?thesis using assms by (simp add: followups_def str_or_default_truthy)
qed

lemma followups_bad_date_update:
  assumes "form ''date'' = Some s" "s \<noteq> []" "fromisoformat ev s = None"
    and "str_or (form ''fu_id'') (next_fu_id d) = Inr fid"
    and "filter_by_first f_fu_id fid (followup_rows d) = Some f"
    and "form ''_method'' = Some ''PUT''"
  shows "followups ev d (POST form) = Inl ValueError"
proof (cases "parse_next_date ev (str_or_None (form ''next_date''))")
  case (Inl e)
  then have "e = ValueError" by (auto simp: parse_next_date_def split: option.splits)
  then show ?thesis using Inl assms(4) by (simp add: followups_def)
next
  case (Inr nd)
  then show ?thesis using assms by (simp add: followups_def str_or_default_truthy)
qed

lemma customers_noop:
  assumes "str_or (form ''customer_id'') (next_customer_id d) = Inr cid"
    and "filter_by_first c_customer_id cid (customer_rows d) = Some c"
    and "form ''_method'' \<noteq> Some ''PUT''" "form ''_method'' \<noteq> Some ''DELETE''"
  shows "customers d (POST form) = Inr (d, customers_page d)"
  using assms by (simp add: customers_def)

lemma orders_noop:
  assumes "str_or (form ''order_id'') (next_order_id d) = Inr oid"
    and "filter_by_first o_order_id oid (order_rows d) = Some r"
    and "form ''_method'' \<noteq> Some ''PUT''" "form ''_method'' \<noteq> Some ''DELETE''"
  shows "orders ev d (POST form) =
           (case fromisoformat ev (str_or_default (form ''date'') (isoformat (today ev))) of
              None \<Rightarrow> Inl ValueError | Some x \<Rightarrow> Inr (d, orders_page d))"
proof (cases "fromisoformat ev (str_or_default (form ''date'') (isoformat (today ev)))")
  case None
  then show ?thesis using assms(1) by (simp add: orders_def)
next
  case (Some x)
  then show ?thesis using assms by (simp add: orders_def)
qed

lemma followups_noop:
  assumes "str_or (form ''fu_id'') (next_fu_id d) = Inr fid"
    and "filter_by_first f_fu_id fid (followup_rows d) = Some f"
    and "form ''_method'' \<noteq> Some ''PUT''" "form ''_method'' \<noteq> Some ''DELETE''"
  shows "followups ev d (POST form) =
           (case parse_next_date ev (str_or_None (form ''next_date'')) of
              Inl e \<Rightarrow> Inl ValueError | Inr nd \<Rightarrow> Inr (d, followups_page d))"
proof (cases "parse_next_date ev (str_or_None (form ''next_date''))")
  case (Inl e)
  then have "e = ValueError" by (auto simp: parse_next_date_def split: option.splits)
  then show ?thesis using Inl assms(1) by (simp add: followups_def)
next
  case (Inr nd)
  then show ?thesis using assms by (simp add: followups_def)
qed

subsection \<open>Reading a table after a write\<close>











subsection \<open>Requests that write nothing, or fail\<close>


lemma followups_delete:
  assumes "str_or (form ''fu_id'') (next_fu_id d) = Inr fid"
    and "parse_next_date ev (str_or_None (form ''next_date'')) = Inr nd"
    and "filter_by_first f_fu_id fid (followup_rows d) = Some f"
    and "form ''_method'' = Some ''DELETE''"
  shows "followups ev d (POST form) =
           Inr (d\<lparr>followup_rows := delete_row f_id f (followup_rows d)\<rparr>,
               Redirect ''/followups'')"
  using assms by (simp add: followups_def)

lemma sample_today: "isoformat (today sample_env) = ''2024-06-15''"
  unfolding sample_env_def by simp code_simp

lemma sample_parse:
  "fromisoformat sample_env ''soon'' = None"
  "fromisoformat sample_env ''2024-06-15'' = Some (2024, 6, 15)"
  "fromisoformat sample_env ''2024-07-01'' = Some (2024, 7, 1)"
  by (simp_all add: sample_env_def date_only_def is_digit_def decimal_value_def digit_val_def
      days_in_month_def)

lemma seeded_find:
  "filter_by_first c_customer_id ''C001'' (customer_rows seeded_db) = Some priya"
  "filter_by_first o_order_id ''O001'' (order_rows seeded_db) = Some order1"
  "filter_by_first f_fu_id ''F001'' (followup_rows seeded_db) = Some followup1"
  by (simp_all add: filter_by_first_def first_def seeded_db_def priya_def kavya_def meena_def
      order1_def order2_def order3_def followup1_def)

text \<open>
  Claim C9. A request that deletes an existing customer removes that customer and leaves
  the order table and the follow-up table as they were, so an order keeps the identifier
  of a customer that is gone.
\<close>

theorem customer_delete_no_cascade:
  assumes "str_or (form ''customer_id'') (next_customer_id d) = Inr cid"
    and "filter_by_first c_customer_id cid (customer_rows d) = Some c"
    and "form ''_method'' = Some ''DELETE''"
  shows "\<exists>d'. customers d (POST form) = Inr (d', Redirect ''/customers'') \<and>
              c \<notin> set (customer_rows d') \<and>
              order_rows d' = order_rows d \<and> followup_rows d' = followup_rows d"
  using customers_delete[OF assms] by (simp add: delete_row_gone)

theorem customer_delete_no_cascade_witness:
  "str_or (delete_priya ''customer_id'') (next_customer_id seeded_db) = Inr ''C001'' \<and>
   filter_by_first c_customer_id ''C001'' (customer_rows seeded_db) = Some priya \<and>
   delete_priya ''_method'' = Some ''DELETE'' \<and>
   (\<exists>d'. customers seeded_db (POST delete_priya) = Inr (d', Redirect ''/customers'') \<and>
         priya \<notin> set (customer_rows d') \<and>
         order_rows d' = [order1, order2, order3] \<and> o_customer_id order1 = ''C001'' \<and>
         followup_rows d' = [followup1])"
proof -
  have a: "str_or (delete_priya ''customer_id'') (next_customer_id seeded_db) = Inr ''C001''"
    by (simp add: delete_priya_def str_or_def)
  have b: "delete_priya ''_method'' = Some ''DELETE''" by (simp add: delete_priya_def)
  have c: "order_rows seeded_db = [order1, order2, order3]" "followup_rows seeded_db = [followup1]"
    "o_customer_id order1 = ''C001''"
    by (simp_all add: seeded_db_def order1_def)
  show ?thesis
    using customer_delete_no_cascade[OF a seeded_find(1) b] a b c seeded_find(1) by simp
qed

text \<open>
  Claim C10, as the code has it. A request whose identifier resolves to an existing row
  and that carries neither the update flag nor the delete flag writes nothing. For
  customers the answer is the rendered list. For orders the date is parsed before the
  branch is chosen, so the answer is the rendered list when the date field (today's date
  when it is blank) parses, and a parse error otherwise; for follow-ups the same holds of
  \<^verbatim>\<open>next_date\<close>, a blank one being accepted.
\<close>

theorem existing_id_without_flag_writes_nothing:
  assumes "form ''_method'' \<noteq> Some ''PUT''" and "form ''_method'' \<noteq> Some ''DELETE''"
  shows
    "(str_or (form ''customer_id'') (next_customer_id d) = Inr cid \<and>
      filter_by_first c_customer_id cid (customer_rows d) = Some c \<longrightarrow>
        customers d (POST form) = Inr (d, customers_page d)) \<and>
     (str_or (form ''order_id'') (next_order_id d) = Inr oid \<and>
      filter_by_first o_order_id oid (order_rows d) = Some r \<longrightarrow>
        orders ev d (POST form) =
          (case fromisoformat ev (str_or_default (form ''date'') (isoformat (today ev))) of
             None \<Rightarrow> Inl ValueError
           | Some date_obj \<Rightarrow> Inr (d, orders_page d))) \<and>
     (str_or (form ''fu_id'') (next_fu_id d) = Inr fid \<and>
      filter_by_first f_fu_id fid (followup_rows d) = Some f \<longrightarrow>
        followups ev d (POST form) =
          (case parse_next_date ev (str_or_None (form ''next_date'')) of
             Inl e \<Rightarrow> Inl ValueError
           | Inr nd \<Rightarrow> Inr (d, followups_page d)))"
  using customers_noop[of form d cid c, OF _ _ assms] orders_noop[of form d oid r ev, OF _ _ assms]
    followups_noop[of form d fid f ev, OF _ _ assms]
  by blast

theorem existing_id_without_flag_writes_nothing_witness:
  "resubmit_priya ''_method'' \<noteq> Some ''PUT'' \<and>
      resubmit_priya ''_method'' \<noteq> Some ''DELETE'' \<and>
   str_or (resubmit_priya ''customer_id'') (next_customer_id seeded_db) = Inr ''C001'' \<and>
   filter_by_first c_customer_id ''C001'' (customer_rows seeded_db) = Some priya \<and>
   customers seeded_db (POST resubmit_priya) = Inr (seeded_db, customers_page seeded_db) \<and>
   resubmit_order1 ''_method'' \<noteq> Some ''PUT'' \<and>
       resubmit_order1 ''_method'' \<noteq> Some ''DELETE'' \<and>
   str_or (resubmit_order1 ''order_id'') (next_order_id seeded_db) = Inr ''O001'' \<and>
   filter_by_first o_order_id ''O001'' (order_rows seeded_db) = Some order1 \<and>
   orders sample_env seeded_db (POST resubmit_order1) = Inr (seeded_db,
       orders_page seeded_db) \<and>
   resubmit_followup1 ''_method'' \<noteq> Some ''PUT'' \<and>
   resubmit_followup1 ''_method'' \<noteq> Some ''DELETE'' \<and>
   str_or (resubmit_followup1 ''fu_id'') (next_fu_id seeded_db) = Inr ''F001'' \<and>
   filter_by_first f_fu_id ''F001'' (followup_rows seeded_db) = Some followup1 \<and>
   followups sample_env seeded_db (POST resubmit_followup1) =
     Inr (seeded_db, followups_page seeded_db)"
proof -
  have c: "resubmit_priya ''_method'' \<noteq> Some ''PUT''"
      "resubmit_priya ''_method'' \<noteq> Some ''DELETE''"
    "str_or (resubmit_priya ''customer_id'') (next_customer_id seeded_db) = Inr ''C001''"
    by (simp_all add: resubmit_priya_def str_or_def)
  have r: "resubmit_order1 ''_method'' \<noteq> Some ''PUT''"
      "resubmit_order1 ''_method'' \<noteq> Some ''DELETE''"
    "str_or (resubmit_order1 ''order_id'') (next_order_id seeded_db) = Inr ''O001''"
    "fromisoformat sample_env
       (str_or_default (resubmit_order1 ''date'') (isoformat (today sample_env))) = Some (2024, 6,
           15)"
    by (simp_all add: resubmit_order1_def str_or_def str_or_default_def sample_today sample_parse)
  have f: "resubmit_followup1 ''_method'' \<noteq> Some ''PUT''"
    "resubmit_followup1 ''_method'' \<noteq> Some ''DELETE''"
    "str_or (resubmit_followup1 ''fu_id'') (next_fu_id seeded_db) = Inr ''F001''"
    "parse_next_date sample_env (str_or_None (resubmit_followup1 ''next_date'')) =
       Inr (Some (2024, 7, 1))"
    by (simp_all add: resubmit_followup1_def str_or_def str_or_None_def parse_next_date_def
        sample_parse)
  show ?thesis
    using existing_id_without_flag_writes_nothing[where form=resubmit_priya and d=seeded_db
        and cid="''C001''" and c=priya]
      existing_id_without_flag_writes_nothing[where form=resubmit_order1 and d=seeded_db
        and oid="''O001''" and r=order1 and ev=sample_env]
      existing_id_without_flag_writes_nothing[where form=resubmit_followup1 and d=seeded_db
        and fid="''F001''" and f=followup1 and ev=sample_env]
      c r f seeded_find
    by simp
qed

text \<open>
  The claim as worded promises the rendered list for every such request. An order form
  that names the existing \<^verbatim>\<open>O001\<close>, carries no flag and has the date \<^verbatim>\<open>soon\<close> is answered
  with the parse error instead.
\<close>

theorem existing_order_bad_date_counterexample:
  "resubmit_order1_bad_date ''_method'' = None \<and>
   str_or (resubmit_order1_bad_date ''order_id'') (next_order_id seeded_db) = Inr ''O001'' \<and>
   filter_by_first o_order_id ''O001'' (order_rows seeded_db) = Some order1 \<and>
   orders sample_env seeded_db (POST resubmit_order1_bad_date) = Inl ValueError"
proof -
  have "resubmit_order1_bad_date ''date'' = Some ''soon''"
      "resubmit_order1_bad_date ''_method'' = None"
    "str_or (resubmit_order1_bad_date ''order_id'') (next_order_id seeded_db) = Inr ''O001''"
    by (simp_all add: resubmit_order1_bad_date_def str_or_def)
  then show ?thesis
    using orders_bad_date[of resubmit_order1_bad_date "''soon''" sample_env seeded_db]
      sample_parse(1) seeded_find(2)
    by simp
qed

text \<open>
  Claim C8, as the code has it. An order request with a date that is not blank and does
  not parse fails with the parse error whatever its flag, and so does a follow-up request
  with such a \<^verbatim>\<open>next_date\<close>: both are parsed before the branch is chosen, and nothing is
  written. The \<^verbatim>\<open>date\<close> of a follow-up is parsed inside the update and insert branches: a
  follow-up request with such a date fails when it updates an existing row or inserts a
  new one.
\<close>

theorem malformed_date_fails_request:
  "(form ''date'' = Some s \<and> s \<noteq> [] \<and> fromisoformat ev s = None \<longrightarrow>
      orders ev d (POST form) = Inl ValueError) \<and>
   (form ''next_date'' = Some s \<and> s \<noteq> [] \<and>
       fromisoformat ev s = None \<longrightarrow>
      followups ev d (POST form) = Inl ValueError) \<and>
   (form ''date'' = Some s \<and> s \<noteq> [] \<and> fromisoformat ev s = None \<and>
    str_or (form ''fu_id'') (next_fu_id d) = Inr fid \<and>
    filter_by_first f_fu_id fid (followup_rows d) = Some f \<and>
        form ''_method'' = Some ''PUT'' \<longrightarrow>
      followups ev d (POST form) = Inl ValueError) \<and>
   (form ''date'' = Some s \<and> s \<noteq> [] \<and> fromisoformat ev s = None \<and>
    str_or (form ''fu_id'') (next_fu_id d) = Inr fid \<and>
    filter_by_first f_fu_id fid (followup_rows d) = None \<longrightarrow>
      followups ev d (POST form) = Inl ValueError)"
  using orders_bad_date[of form s ev d] followups_bad_next_date[of form s ev d]
    followups_bad_date_update[of form s ev d fid f] followups_bad_date_insert[of form s ev d fid]
  by blast

theorem malformed_date_fails_request_witness:
  "delete_order1_bad_date ''date'' = Some ''soon'' \<and> ''soon'' \<noteq> [] \<and>
   fromisoformat sample_env ''soon'' = None \<and>
   delete_order1_bad_date ''_method'' = Some ''DELETE'' \<and>
   orders sample_env seeded_db (POST delete_order1_bad_date) = Inl ValueError \<and>
   delete_followup1_bad_next_date ''next_date'' = Some ''soon'' \<and>
   delete_followup1_bad_next_date ''_method'' = Some ''DELETE'' \<and>
   followups sample_env seeded_db (POST delete_followup1_bad_next_date) = Inl ValueError \<and>
   update_followup1_bad_date ''date'' = Some ''soon'' \<and>
   str_or (update_followup1_bad_date ''fu_id'') (next_fu_id seeded_db) = Inr ''F001'' \<and>
   filter_by_first f_fu_id ''F001'' (followup_rows seeded_db) = Some followup1 \<and>
   update_followup1_bad_date ''_method'' = Some ''PUT'' \<and>
   followups sample_env seeded_db (POST update_followup1_bad_date) = Inl ValueError \<and>
   str_or (update_followup1_bad_date ''fu_id'') (next_fu_id empty_db) = Inr ''F001'' \<and>
   filter_by_first f_fu_id ''F001'' (followup_rows empty_db) = None \<and>
   followups sample_env empty_db (POST update_followup1_bad_date) = Inl ValueError"
proof -
  have a: "delete_order1_bad_date ''date'' = Some ''soon''"
    "delete_order1_bad_date ''_method'' = Some ''DELETE''"
    by (simp_all add: delete_order1_bad_date_def)
  have b: "delete_followup1_bad_next_date ''next_date'' = Some ''soon''"
    "delete_followup1_bad_next_date ''_method'' = Some ''DELETE''"
    by (simp_all add: delete_followup1_bad_next_date_def)
  have c: "update_followup1_bad_date ''date'' = Some ''soon''"
    "update_followup1_bad_date ''_method'' = Some ''PUT''"
    "str_or (update_followup1_bad_date ''fu_id'') (next_fu_id seeded_db) = Inr ''F001''"
    "str_or (update_followup1_bad_date ''fu_id'') (next_fu_id empty_db) = Inr ''F001''"
    "filter_by_first f_fu_id ''F001'' (followup_rows empty_db) = None"
    by (simp_all add: update_followup1_bad_date_def str_or_def empty_db_def filter_by_first_def
        first_def)
  show ?thesis
    using malformed_date_fails_request[of delete_order1_bad_date "''soon''" sample_env seeded_db
        "''F001''" followup1]
      malformed_date_fails_request[of delete_followup1_bad_next_date "''soon''" sample_env
        seeded_db "''F001''" followup1]
      malformed_date_fails_request[of update_followup1_bad_date "''soon''" sample_env seeded_db
        "''F001''" followup1]
      malformed_date_fails_request[of update_followup1_bad_date "''soon''" sample_env empty_db
        "''F001''" followup1]
      a b c sample_parse(1) seeded_find(3)
    by simp
qed

text \<open>
  The claim as worded covers the \<^verbatim>\<open>date\<close> of a follow-up under the delete flag as well.
  There the date is never parsed: the request that deletes \<^verbatim>\<open>F001\<close> with the date \<^verbatim>\<open>soon\<close>
  is carried out and the row is gone.
\<close>

theorem followup_delete_bad_date_counterexample:
  "delete_followup1_bad_date ''date'' = Some ''soon'' \<and>
   fromisoformat sample_env ''soon'' = None \<and>
   delete_followup1_bad_date ''_method'' = Some ''DELETE'' \<and>
   followup_rows seeded_db = [followup1] \<and>
   followups sample_env seeded_db (POST delete_followup1_bad_date) =
     Inr (seeded_db\<lparr>followup_rows := []\<rparr>, Redirect ''/followups'')"
proof -
  have a: "delete_followup1_bad_date ''date'' = Some ''soon''"
    "delete_followup1_bad_date ''_method'' = Some ''DELETE''"
    "str_or (delete_followup1_bad_date ''fu_id'') (next_fu_id seeded_db) = Inr ''F001''"
    "parse_next_date sample_env (str_or_None (delete_followup1_bad_date ''next_date'')) = Inr None"
    by (simp_all add: delete_followup1_bad_date_def str_or_def str_or_None_def parse_next_date_def)
  have b: "followup_rows seeded_db = [followup1]" by (simp add: seeded_db_def)
  have "delete_row f_id followup1 (followup_rows seeded_db) = []"
    by (simp add: b delete_row_def)
  then show ?thesis
    using followups_delete[OF a(3) a(4) seeded_find(3) a(2)] a b sample_parse(1) by simp
qed

subsection \<open>List views\<close>

lemma order_by_desc_sorted:
  fixes key :: "'r \<Rightarrow> 'k::linorder"
  shows "sorted_wrt (\<lambda>a b. key b \<le> key a) (order_by_desc key rows)"
proof -
  have "sorted_wrt (\<lambda>a b. key a \<le> key b) (sort_key key rows)"
    using sorted_sort_key[of key rows] by (simp add: sorted_map)
  then show ?thesis by (simp add: order_by_desc_def sorted_wrt_rev)
qed

lemma order_by_desc_mset: "mset (order_by_desc key rows) = mset rows"
  by (simp add: order_by_desc_def)

lemma order_by_asc_nulls_last_sorted:
  "sorted_wrt (\<lambda>a b. asc_nulls_last_le (col a) (col b)) (order_by_asc_nulls_last col rows)"
proof -
  let ?k = "\<lambda>r. (col r = None, col r)"
  have "sorted_wrt (\<lambda>a b. ?k a \<le> ?k b) (sort_key ?k rows)"
    using sorted_sort_key[of ?k rows] by (simp add: sorted_map)
  moreover have "?k a \<le> ?k b \<Longrightarrow> asc_nulls_last_le (col a) (col b)" for a b
    by (cases "col a"; cases "col b") (auto simp: asc_nulls_last_le_def)
  ultimately show ?thesis
    unfolding order_by_asc_nulls_last_def by (rule sorted_wrt_mono_rel[rotated]) blast
qed

lemma order_by_asc_nulls_last_mset: "mset (order_by_asc_nulls_last col rows) = mset rows"
  by (simp add: order_by_asc_nulls_last_def)

text \<open>
  Claim C3, as the code has it. Each list view shows every row of its table once: the
  customers by descending row id, the orders by descending date (a missing date counts as
  the earliest), the follow-ups by ascending \<^verbatim>\<open>next_date\<close> with the rows that have none at
  the end.
\<close>

theorem list_views_order:
  "(\<exists>rows. customers d GET = Inr (d,
      CustomersPage rows) \<and> mset rows = mset (customer_rows d) \<and>
           sorted_wrt (\<lambda>a b. c_id b \<le> c_id a) rows) \<and>
   (\<exists>rows. orders ev d GET = Inr (d, OrdersPage rows (customer_rows d)) \<and>
           mset rows = mset (order_rows d) \<and>
           sorted_wrt (\<lambda>a b. o_date b \<le> o_date a) rows) \<and>
   (\<exists>rows. followups ev d GET = Inr (d, FollowupsPage rows) \<and>
           mset rows = mset (followup_rows d) \<and>
           sorted_wrt (\<lambda>a b. asc_nulls_last_le (f_next_date a) (f_next_date b)) rows)"
  by (simp add: customers_def customers_page_def orders_def orders_page_def followups_def
      followups_page_def order_by_desc_sorted order_by_desc_mset order_by_asc_nulls_last_sorted
      order_by_asc_nulls_last_mset)

text \<open>
  The claim as worded has the orders by descending row id. With a fourth order entered
  later for an earlier date, the list shows the rows with ids 3, 2, 1, 4.
\<close>

theorem orders_list_not_by_row_id_counterexample:
  "orders sample_env backdated_db GET =
     Inr (backdated_db, OrdersPage [order3, order2, order1,
         order4] (customer_rows backdated_db)) \<and>
   map o_id [order3, order2, order1, order4] = [3, 2, 1, 4] \<and>
   \<not> sorted_wrt (\<lambda>a b. o_id b \<le> o_id a) [order3, order2, order1, order4]"
  by (simp add: orders_def orders_page_def order_by_desc_def backdated_db_def seeded_db_def
      order1_def order2_def order3_def order4_def)

subsection \<open>Saree-type distribution\<close>

lemma count_by_group:
  assumes "finite K" "col ` set rows \<subseteq> K"
  shows "(\<Sum>k\<in>K. length (filter (\<lambda>r. col r = k) rows)) = length rows"
  using assms(2)
proof (induction rows)
  case Nil
  then show ?case by simp
next
  case (Cons x rows)
  have "(\<Sum>k\<in>K. length (filter (\<lambda>r. col r = k) (x # rows))) =
        (\<Sum>k\<in>K. (if col x = k then 1 else 0) + length (filter (\<lambda>r. col r =
            k) rows))"
    by (rule sum.cong) auto
  also have "\<dots> = (\<Sum>k\<in>K. if col x =
      k then 1 else 0) + (\<Sum>k\<in>K. length (filter (\<lambda>r. col r = k) rows))"
    by (simp add: sum.distrib)
  also have "(\<Sum>k\<in>K. if col x = k then 1 else 0) = (1::nat)"
    using Cons.prems assms(1) by simp
  finally show ?case using Cons by simp
qed

lemma q2_counts: "sum_list (map snd (q2 d)) = length (order_rows d)"
proof -
  let ?ks = "group_keys o_saree_type (order_rows d)"
  have "sum_list (map snd (q2 d)) =
        sum_list (map (\<lambda>k. length (filter (\<lambda>r. o_saree_type r =
            k) (order_rows d))) ?ks)"
    by (simp add: q2_def comp_def)
  also have "\<dots> = (\<Sum>k\<in>set ?ks. length (filter (\<lambda>r. o_saree_type r =
      k) (order_rows d)))"
    by (rule sum_list_distinct_conv_sum_set) (simp add: group_keys_def)
  also have "\<dots> = length (order_rows d)"
    by (rule count_by_group) (auto simp: group_keys_def)
  finally show ?thesis .
qed

lemma q2_member:
  "r \<in> set (order_rows d) \<Longrightarrow>
   (o_saree_type r,
       length (filter (\<lambda>x. o_saree_type x =
       o_saree_type r) (order_rows d))) \<in> set (q2 d)"
  by (auto simp: q2_def group_keys_def)

text \<open>
  Claim C6. The counts of the saree-type distribution add up to the number of orders. Every
  order is counted in an entry that carries the number of orders of the same type; the
  entry is labelled \<^verbatim>\<open>Unknown\<close> when the type of the order is null or empty, and with the
  type itself otherwise.
\<close>

theorem saree_dist_exhaustive:
  "sum_list (map snd (saree_dist d)) = total_orders d \<and>
   (\<forall>r\<in>set (order_rows d).
      (o_saree_type r = None \<or> o_saree_type r = Some [] \<longrightarrow>
         (''Unknown'', length (filter (\<lambda>x. o_saree_type x = o_saree_type r) (order_rows d)))
           \<in> set (saree_dist d)) \<and>
      (\<forall>s. o_saree_type r = Some s \<and> s \<noteq> [] \<longrightarrow>
         (s, length (filter (\<lambda>x. o_saree_type x =
             Some s) (order_rows d))) \<in> set (saree_dist d)))"
proof -
  have "sum_list (map snd (saree_dist d)) = sum_list (map snd (q2 d))"
    by (simp add: saree_dist_def comp_def)
  then have 1: "sum_list (map snd (saree_dist d)) = total_orders d"
    by (simp add: q2_counts total_orders_def)
  have 2: "(''Unknown'',
      length (filter (\<lambda>x. o_saree_type x = o_saree_type r) (order_rows d)))
             \<in> set (saree_dist d)"
    if "r \<in> set (order_rows d)" "o_saree_type r = None \<or> o_saree_type r = Some []" for r
    using q2_member[OF that(1)] that(2) by (force simp: saree_dist_def)
  have 3: "(s,
      length (filter (\<lambda>x. o_saree_type x =
      Some s) (order_rows d))) \<in> set (saree_dist d)"
    if "r \<in> set (order_rows d)" "o_saree_type r = Some s" "s \<noteq> []" for r s
    using q2_member[OF that(1)] that(2,3) by (force simp: saree_dist_def)
  show ?thesis using 1 2 3 by blast
qed

theorem saree_dist_exhaustive_witness:
  "saree_dist orphaned_db =
     [(''Soft Silk'', 1), (''Chiffon Floral'', 1), (''Banarasi'', 1), (''Unknown'', 1)] \<and>
   sum_list (map snd (saree_dist orphaned_db)) = total_orders orphaned_db \<and>
   total_orders orphaned_db = 4 \<and>
   order4 \<in> set (order_rows orphaned_db) \<and> o_saree_type order4 = None \<and>
   (''Unknown'',
       length (filter (\<lambda>x. o_saree_type x = o_saree_type order4) (order_rows orphaned_db)))
      \<in> set (saree_dist orphaned_db) \<and>
   order1 \<in> set (order_rows orphaned_db) \<and> o_saree_type order1 = Some ''Soft Silk'' \<and>
   (''Soft Silk'',
       length (filter (\<lambda>x. o_saree_type x = Some ''Soft Silk'') (order_rows orphaned_db)))
      \<in> set (saree_dist orphaned_db)"
proof -
  have a: "saree_dist orphaned_db =
     [(''Soft Silk'', 1), (''Chiffon Floral'', 1), (''Banarasi'', 1), (''Unknown'', 1)]"
    by (simp add: saree_dist_def q2_def group_keys_def orphaned_db_def order1_def order2_def
        order3_def order4_def)
  have b: "order4 \<in> set (order_rows orphaned_db)" "o_saree_type order4 = None"
    "order1 \<in> set (order_rows orphaned_db)" "o_saree_type order1 = Some ''Soft Silk''"
    "total_orders orphaned_db = 4"
    by (simp_all add: orphaned_db_def order4_def order1_def total_orders_def)
  show ?thesis using saree_dist_exhaustive[of orphaned_db] a b by auto
qed

subsection \<open>Top customers\<close>

lemma sort_key_distinct_map: "distinct (map g (sort_key key xs)) = distinct (map g xs)"
proof -
  have "mset (map g (sort_key key xs)) = mset (map g xs)" by simp
  then show ?thesis by (rule mset_eq_imp_distinct_iff)
qed

lemma q3_groups:
  "q3 d = take 5 (order_by_desc snd (map (\<lambda>k. (k, customer_total d k))
                                       (group_keys o_customer_id (order_rows d))))"
  by (simp add: q3_def customer_total_def)

lemma q3_sorted: "sorted_wrt (\<lambda>a b. snd b \<le> snd a) (q3 d)"
  unfolding q3_groups by (rule sorted_wrt_take) (rule order_by_desc_sorted)

lemma q3_distinct: "distinct (map fst (q3 d))"
proof -
  have "distinct (map fst (order_by_desc snd (map (\<lambda>k. (k, customer_total d k))
                  (group_keys o_customer_id (order_rows d)))))"
    by (simp add: order_by_desc_def distinct_rev sort_key_distinct_map comp_def group_keys_def
        flip: rev_map)
  then show ?thesis unfolding q3_groups by (simp add: take_map[symmetric] distinct_take)
qed

lemma q3_member:
  assumes "(k, s) \<in> set (q3 d)"
  shows "k \<in> o_customer_id ` set (order_rows d) \<and> s = customer_total d k"
proof -
  have "(k, s) \<in> set (order_by_desc snd (map (\<lambda>k. (k, customer_total d k))
                  (group_keys o_customer_id (order_rows d))))"
    using assms unfolding q3_groups by (rule in_set_takeD)
  then show ?thesis by (auto simp: order_by_desc_def group_keys_def)
qed

lemma q3_length: "length (q3 d) = min 5 (card (o_customer_id ` set (order_rows d)))"
  by (simp add: q3_groups order_by_desc_def group_keys_def length_remdups_card_conv min.commute)

lemma q3_top:
  assumes "k \<in> o_customer_id ` set (order_rows d)" "k \<notin> fst ` set (q3 d)"
      "x \<in> set (q3 d)"
  shows "customer_total d k \<le> snd x"
proof -
  let ?all = "order_by_desc snd (map (\<lambda>k. (k, customer_total d k))
                  (group_keys o_customer_id (order_rows d)))"
  have "(k, customer_total d k) \<in> set ?all"
    using assms(1) by (auto simp: order_by_desc_def group_keys_def)
  moreover have "(k, customer_total d k) \<notin> set (take 5 ?all)"
    using assms(2) unfolding q3_groups by force
  ultimately have "(k, customer_total d k) \<in> set (drop 5 ?all)"
    by (metis Un_iff append_take_drop_id set_append)
  moreover have "sorted_wrt (\<lambda>a b. snd b \<le> snd a) (take 5 ?all @ drop 5 ?all)"
    by (simp add: order_by_desc_sorted)
  ultimately show ?thesis
    using assms(3) unfolding q3_groups sorted_wrt_append by force
qed

text \<open>
  Claim C5. The list of top customers has one entry for each of at most five distinct
  customer identifiers found in the orders, with the sum of the amounts of that customer's
  orders, in descending order of the sums; no customer left out has a greater sum than
  one that is listed. The name of an entry is the identifier itself whenever no customer
  row carries that identifier.
\<close>

theorem top_customers:
  "length (topc d) \<le> 5 \<and>
   length (topc d) = min 5 (card (o_customer_id ` set (order_rows d))) \<and>
   sorted_wrt (\<lambda>a b. snd b \<le> snd a) (topc d) \<and>
   map snd (topc d) = map snd (q3 d) \<and>
   distinct (map fst (q3 d)) \<and>
   (\<forall>x\<in>set (q3 d). fst x \<in> o_customer_id ` set (order_rows d) \<and>
                     snd x = customer_total d (fst x)) \<and>
   (\<forall>k\<in>o_customer_id ` set (order_rows d).
      k \<notin> fst ` set (q3 d) \<longrightarrow>
          (\<forall>x\<in>set (q3 d). customer_total d k \<le> snd x)) \<and>
   (\<forall>i<length (q3 d).
      filter_by_first c_customer_id (fst (q3 d ! i)) (customer_rows d) = None \<longrightarrow>
        fst (topc d ! i) = fst (q3 d ! i)) \<and>
   (\<forall>i<length (q3 d). \<forall>c.
      filter_by_first c_customer_id (fst (q3 d ! i)) (customer_rows d) = Some c \<longrightarrow>
        fst (topc d ! i) = c_name c)"
proof -
  have len: "length (topc d) = length (q3 d)" by (simp add: topc_def)
  have snd: "map snd (topc d) = map snd (q3 d)" by (simp add: topc_def comp_def)
  have "sorted_wrt (\<lambda>a b. snd b \<le> snd a) (topc d)"
    using q3_sorted[of d] by (simp add: topc_def sorted_wrt_map)
  moreover have "\<forall>x\<in>set (q3 d). fst x \<in> o_customer_id ` set (order_rows d) \<and>
                     snd x = customer_total d (fst x)"
    using q3_member[of _ _ d] by (metis prod.collapse)
  moreover have "\<forall>k\<in>o_customer_id ` set (order_rows d).
      k \<notin> fst ` set (q3 d) \<longrightarrow>
          (\<forall>x\<in>set (q3 d). customer_total d k \<le> snd x)"
    using q3_top[of _ d] by blast
  ultimately show ?thesis
    using len snd q3_length[of d] q3_distinct[of d] by (simp add: topc_def)
qed

theorem top_customers_witness:
  "q3 orphaned_db = [(''C001'', Some 3400), (''C002'', Some 3200), (''C003'', Some 1800)] \<and>
   topc orphaned_db =
     [(''C001'', Some 3400), (''Kavya Sharma'', Some 3200), (''Meena Patel'', Some 1800)] \<and>
   filter_by_first c_customer_id ''C001'' (customer_rows orphaned_db) = None \<and>
   filter_by_first c_customer_id ''C002'' (customer_rows orphaned_db) = Some kavya \<and>
   (0::nat) < length (q3 orphaned_db) \<and>
       fst (topc orphaned_db ! 0) = fst (q3 orphaned_db ! 0) \<and>
   (1::nat) < length (q3 orphaned_db) \<and> fst (topc orphaned_db ! 1) = c_name kavya \<and>
   length (topc orphaned_db) \<le> 5 \<and>
   sorted_wrt (\<lambda>a b. snd b \<le> snd a) (topc orphaned_db)"
proof -
  have q: "q3 orphaned_db = [(''C001'', Some 3400), (''C002'', Some 3200), (''C003'', Some 1800)]"
    by (simp add: q3_def order_by_desc_def group_keys_def sql_sum_def non_null_def orphaned_db_def
        order1_def order2_def order3_def order4_def)
  have f: "filter_by_first c_customer_id ''C001'' (customer_rows orphaned_db) = None"
    "filter_by_first c_customer_id ''C002'' (customer_rows orphaned_db) = Some kavya"
    "filter_by_first c_customer_id ''C003'' (customer_rows orphaned_db) = Some meena"
    by (simp_all add: filter_by_first_def first_def orphaned_db_def kavya_def meena_def)
  have t: "topc orphaned_db =
     [(''C001'', Some 3400), (''Kavya Sharma'', Some 3200), (''Meena Patel'', Some 1800)]"
    by (simp add: topc_def q f) (simp add: kavya_def meena_def)
  note T = top_customers[of orphaned_db]
  have len: "length (topc orphaned_db) \<le> 5" using T by (rule conjunct1)
  have srt: "sorted_wrt (\<lambda>a b. snd b \<le> snd a) (topc orphaned_db)" using T by blast
  have fb: "\<forall>i<length (q3 orphaned_db).
      filter_by_first c_customer_id (fst (q3 orphaned_db ! i)) (customer_rows orphaned_db) =
          None \<longrightarrow>
        fst (topc orphaned_db ! i) = fst (q3 orphaned_db ! i)"
    using T by blast
  have nm: "\<forall>i<length (q3 orphaned_db). \<forall>c.
      filter_by_first c_customer_id (fst (q3 orphaned_db ! i)) (customer_rows orphaned_db) =
          Some c \<longrightarrow>
        fst (topc orphaned_db ! i) = c_name c"
    using T by blast
  have l: "(0::nat) < length (q3 orphaned_db)" "(1::nat) < length (q3 orphaned_db)"
    by (simp_all add: q)
  have k: "fst (q3 orphaned_db ! 0) = ''C001''" "fst (q3 orphaned_db ! 1) = ''C002''"
    by (simp_all add: q)
  have w0: "fst (topc orphaned_db ! 0) = fst (q3 orphaned_db ! 0)"
    using fb[rule_format, OF l(1)] f(1) k(1) by simp
  have w1: "fst (topc orphaned_db ! 1) = c_name kavya"
    using nm[rule_format, OF l(2), of kavya] f(2) k(2) by simp
  show ?thesis using q t f(1,2) l w0 w1 len srt by blast
qed

subsection \<open>CSV export\<close>

lemma count_concat: "count_list (concat xss) c = sum_list (map (\<lambda>xs. count_list xs c) xss)"
  by (induction xss) auto

lemma count_join_comma:
  "c \<noteq> CHR '','' \<Longrightarrow>
      count_list (join_comma xs) c = sum_list (map (\<lambda>x. count_list x c) xs)"
  by (induction xs rule: join_comma.induct) auto

lemma count_doubled_quotes:
  "c \<noteq> CHR 0x22 \<Longrightarrow>
   count_list (concat (map (\<lambda>x. if x = CHR 0x22 then [x,
       x] else [x]) s)) c = count_list s c"
  by (induction s) auto

lemma count_csv_field: "c \<noteq> CHR 0x22 \<Longrightarrow>
    count_list (csv_field s) c = count_list s c"
  by (simp add: csv_field_def count_doubled_quotes)

lemma count_writerow:
  assumes "c = CR \<or> c = LF" "\<forall>x\<in>set row. count_list x c = 0"
  shows "count_list (writerow row) c = 1"
proof -
  have ne: "c \<noteq> CHR '',''" "c \<noteq> CHR 0x22" using assms(1) by (auto simp: CR_def LF_def)
  have "count_list (join_comma (map csv_field row)) c = 0"
    using assms(2) by (simp add: count_join_comma[OF ne(1)] count_csv_field[OF ne(2)] comp_def)
  then show ?thesis using assms(1) ne by (auto simp: writerow_def CR_def LF_def)
qed

lemma count_rows_to_csv:
  assumes "c = CR \<or> c = LF" "\<forall>x\<in>set cols. count_list x c = 0"
    and "\<forall>r\<in>set rows. \<forall>x\<in>set (row_fields getattr cols r). count_list x c =
        0"
  shows "count_list (rows_to_csv getattr rows cols) c = length rows + 1"
proof -
  have "sum_list (map (\<lambda>r. count_list (writerow (row_fields getattr cols r)) c) rows) =
      length rows"
    using assms(3)
  proof (induction rows)
    case Nil then show ?case by simp
  next
    case (Cons r rows)
    then show ?case using count_writerow[OF assms(1), of "row_fields getattr cols r"] by simp
  qed
  then show ?thesis
    using count_writerow[OF assms(1,2)] by (simp add: rows_to_csv_def count_concat comp_def)
qed

lemma cols_one_line:
  "\<forall>x\<in>set customer_cols. one_line x" "\<forall>x\<in>set order_cols. one_line x"
  "\<forall>x\<in>set followup_cols. one_line x"
  by (simp_all add: customer_cols_def order_cols_def followup_cols_def one_line_def CR_def LF_def)

lemma line_count_export:
  assumes "\<forall>x\<in>set cols. one_line x"
    and "\<forall>r\<in>set rows. \<forall>x\<in>set (row_fields getattr cols r). one_line x"
  shows "line_count (rows_to_csv getattr rows cols) = length rows + 1"
    and "count_list (rows_to_csv getattr rows cols) CR = length rows + 1"
  using assms count_rows_to_csv[of LF cols rows getattr] count_rows_to_csv[of CR cols rows getattr]
  by (simp_all add: line_count_def one_line_def)

lemma header_rows:
  "writerow customer_cols = ''customer_id,name,insta,phone,city,ctype,notes'' @ [CR, LF]"
  "writerow order_cols =
     ''order_id,date,customer_id,saree_type,amount,payment_status,delivery_status,remarks'' @ [CR,
         LF]"
  "writerow followup_cols =
     ''fu_id,date,customer_name,insta,topic,next_date,status,remarks'' @ [CR, LF]"
  by (simp_all add: writerow_def customer_cols_def order_cols_def followup_cols_def csv_field_def
      needs_quote_def CR_def LF_def)

lemma row_fields_customer:
  "row_fields customer_getattr customer_cols r =
     [c_customer_id r, c_name r, cell_text (opt_str (c_insta r)), cell_text (opt_str (c_phone r)),
      cell_text (opt_str (c_city r)), cell_text (opt_str (c_ctype r)),
      cell_text (opt_str (c_notes r))]"
  by (simp add: row_fields_def customer_cols_def customer_getattr_def cell_text_def)

lemma row_fields_order:
  "row_fields order_getattr order_cols r =
     [o_order_id r, cell_text (opt_date (o_date r)), o_customer_id r,
      cell_text (opt_str (o_saree_type r)), cell_text (opt_int (o_amount r)),
      cell_text (opt_str (o_payment_status r)), cell_text (opt_str (o_delivery_status r)),
      cell_text (opt_str (o_remarks r))]"
  by (simp add: row_fields_def order_cols_def order_getattr_def cell_text_def)

lemma row_fields_followup:
  "row_fields followup_getattr followup_cols r =
     [f_fu_id r, cell_text (opt_date (f_date r)), cell_text (opt_str (f_customer_name r)),
      cell_text (opt_str (f_insta r)), cell_text (opt_str (f_topic r)),
      cell_text (opt_date (f_next_date r)), cell_text (opt_str (f_status r)),
      cell_text (opt_str (f_remarks r))]"
  by (simp add: row_fields_def followup_cols_def followup_getattr_def cell_text_def)


lemma digits_one_line: "list_all is_digit s \<Longrightarrow> one_line s"
  by (induction s) (auto simp: one_line_def is_digit_def CR_def LF_def)

lemma one_line_append: "one_line (a @ b) = (one_line a \<and> one_line b)"
  by (auto simp: one_line_def)

lemma zfill_one_line: "one_line (zfill w n)"
proof -
  have "is_digit CHR ''0''" by (simp add: is_digit_def)
  then have "list_all is_digit (zfill w n)"
    using digits_of_all_digits[of n] by (auto simp: zfill_def list_all_iff)
  then show ?thesis by (rule digits_one_line)
qed

lemma one_line_Cons: "one_line (c # s) = (c \<noteq> CR \<and> c \<noteq> LF \<and> one_line s)"
  by (auto simp: one_line_def)

lemma isoformat_one_line: "one_line (isoformat dt)"
  by (cases dt) (simp add: isoformat_def one_line_append one_line_Cons zfill_one_line CR_def LF_def)

lemma py_str_one_line: "one_line (py_str n)"
  using digits_one_line[OF digits_of_all_digits]
  by (simp add: py_str_def one_line_Cons CR_def LF_def)

lemma one_line_Nil: "one_line []"
  by (simp add: one_line_def)

lemma opt_date_one_line: "one_line (cell_text (opt_date v))"
  by (cases v) (simp_all add: cell_text_def opt_date_def isoformat_one_line one_line_Nil)

lemma opt_int_one_line: "one_line (cell_text (opt_int v))"
  by (cases v) (simp_all add: cell_text_def opt_int_def py_str_one_line one_line_Nil)

lemma opt_str_one_line: "one_line (cell_text (opt_str v)) =
    (case v of None \<Rightarrow> True | Some s \<Rightarrow> one_line s)"
  by (cases v) (simp_all add: cell_text_def opt_str_def one_line_Nil)

lemmas cell_one_line =
    opt_date_one_line opt_int_one_line opt_str_one_line one_line_Cons one_line_Nil

text \<open>
  Claim C7, as the code has it. Each export is the header record, the column names in
  their fixed order without the row id, followed by one record for each row of the table
  in that column order, every record closed by carriage return and line feed. For an
  empty table the export is the header line alone. The export of a table with \<open>N\<close> rows
  has \<open>N + 1\<close> lines whenever no field of a row holds a carriage return or a line feed.
\<close>

theorem csv_export_shape:
  "export_customers d =
     (''customer_id,name,insta,phone,city,ctype,notes'' @ [CR, LF]) @
     concat (map (\<lambda>r. writerow
       [c_customer_id r, c_name r, cell_text (opt_str (c_insta r)),
        cell_text (opt_str (c_phone r)), cell_text (opt_str (c_city r)),
        cell_text (opt_str (c_ctype r)), cell_text (opt_str (c_notes r))]) (customer_rows d)) \<and>
   export_orders d =
     (''order_id,date,customer_id,saree_type,amount,payment_status,delivery_status,remarks'' @
        [CR, LF]) @
     concat (map (\<lambda>r. writerow
       [o_order_id r, cell_text (opt_date (o_date r)), o_customer_id r,
        cell_text (opt_str (o_saree_type r)), cell_text (opt_int (o_amount r)),
        cell_text (opt_str (o_payment_status r)), cell_text (opt_str (o_delivery_status r)),
        cell_text (opt_str (o_remarks r))]) (order_rows d)) \<and>
   export_followups d =
     (''fu_id,date,customer_name,insta,topic,next_date,status,remarks'' @ [CR, LF]) @
     concat (map (\<lambda>r. writerow
       [f_fu_id r, cell_text (opt_date (f_date r)), cell_text (opt_str (f_customer_name r)),
        cell_text (opt_str (f_insta r)), cell_text (opt_str (f_topic r)),
        cell_text (opt_date (f_next_date r)), cell_text (opt_str (f_status r)),
        cell_text (opt_str (f_remarks r))]) (followup_rows d)) \<and>
   (customer_rows d = [] \<longrightarrow>
      export_customers d = ''customer_id,name,insta,phone,city,ctype,notes'' @ [CR, LF]) \<and>
   (order_rows d = [] \<longrightarrow>
      export_orders d =
        ''order_id,date,customer_id,saree_type,amount,payment_status,delivery_status,remarks'' @
        [CR, LF]) \<and>
   (followup_rows d = [] \<longrightarrow>
      export_followups d =
        ''fu_id,date,customer_name,insta,topic,next_date,status,remarks'' @ [CR, LF]) \<and>
   ((\<forall>r\<in>set (customer_rows d). \<forall>x\<in>set (row_fields customer_getattr
       customer_cols r). one_line x) \<longrightarrow>
      line_count (export_customers d) = length (customer_rows d) + 1) \<and>
   ((\<forall>r\<in>set (order_rows d). \<forall>x\<in>set (row_fields order_getattr order_cols r).
       one_line x) \<longrightarrow>
      line_count (export_orders d) = length (order_rows d) + 1) \<and>
   ((\<forall>r\<in>set (followup_rows d). \<forall>x\<in>set (row_fields followup_getattr
       followup_cols r). one_line x) \<longrightarrow>
      line_count (export_followups d) = length (followup_rows d) + 1)"
proof -
  have c: "export_customers d =
     (''customer_id,name,insta,phone,city,ctype,notes'' @ [CR, LF]) @
     concat (map (\<lambda>r. writerow
       [c_customer_id r, c_name r, cell_text (opt_str (c_insta r)),
        cell_text (opt_str (c_phone r)), cell_text (opt_str (c_city r)),
        cell_text (opt_str (c_ctype r)), cell_text (opt_str (c_notes r))]) (customer_rows d))"
    unfolding export_customers_def rows_to_csv_def header_rows row_fields_customer ..
  have r: "export_orders d =
     (''order_id,date,customer_id,saree_type,amount,payment_status,delivery_status,remarks'' @
        [CR, LF]) @
     concat (map (\<lambda>r. writerow
       [o_order_id r, cell_text (opt_date (o_date r)), o_customer_id r,
        cell_text (opt_str (o_saree_type r)), cell_text (opt_int (o_amount r)),
        cell_text (opt_str (o_payment_status r)), cell_text (opt_str (o_delivery_status r)),
        cell_text (opt_str (o_remarks r))]) (order_rows d))"
    unfolding export_orders_def rows_to_csv_def header_rows row_fields_order ..
  have f: "export_followups d =
     (''fu_id,date,customer_name,insta,topic,next_date,status,remarks'' @ [CR, LF]) @
     concat (map (\<lambda>r. writerow
       [f_fu_id r, cell_text (opt_date (f_date r)), cell_text (opt_str (f_customer_name r)),
        cell_text (opt_str (f_insta r)), cell_text (opt_str (f_topic r)),
        cell_text (opt_date (f_next_date r)), cell_text (opt_str (f_status r)),
        cell_text (opt_str (f_remarks r))]) (followup_rows d))"
    unfolding export_followups_def rows_to_csv_def header_rows row_fields_followup ..
  have e: "customer_rows d = [] \<longrightarrow>
      export_customers d = ''customer_id,name,insta,phone,city,ctype,notes'' @ [CR, LF]"
    "order_rows d = [] \<longrightarrow>
      export_orders d =
        ''order_id,date,customer_id,saree_type,amount,payment_status,delivery_status,remarks'' @
        [CR, LF]"
    "followup_rows d = [] \<longrightarrow>
      export_followups d =
        ''fu_id,date,customer_name,insta,topic,next_date,status,remarks'' @ [CR, LF]"
    unfolding c r f by simp_all
  have l: "(\<forall>r\<in>set (customer_rows d). \<forall>x\<in>set (row_fields customer_getattr
      customer_cols r). one_line x) \<longrightarrow>
      line_count (export_customers d) = length (customer_rows d) + 1"
    "(\<forall>r\<in>set (order_rows d). \<forall>x\<in>set (row_fields order_getattr order_cols r).
        one_line x) \<longrightarrow>
      line_count (export_orders d) = length (order_rows d) + 1"
    "(\<forall>r\<in>set (followup_rows d). \<forall>x\<in>set (row_fields followup_getattr
        followup_cols r). one_line x) \<longrightarrow>
      line_count (export_followups d) = length (followup_rows d) + 1"
    unfolding export_customers_def export_orders_def export_followups_def
    using line_count_export(1)[OF cols_one_line(1), of "customer_rows d" customer_getattr]
      line_count_export(1)[OF cols_one_line(2), of "order_rows d" order_getattr]
      line_count_export(1)[OF cols_one_line(3), of "followup_rows d" followup_getattr]
    by blast+
  show ?thesis using c r f e l by blast
qed

theorem csv_export_shape_witness:
  "customer_rows empty_db = [] \<and> order_rows empty_db = [] \<and>
      followup_rows empty_db = [] \<and>
   export_customers empty_db = ''customer_id,name,insta,phone,city,ctype,notes'' @ [CR, LF] \<and>
   export_orders empty_db =
     ''order_id,date,customer_id,saree_type,amount,payment_status,delivery_status,remarks'' @
     [CR, LF] \<and>
   export_followups empty_db =
     ''fu_id,date,customer_name,insta,topic,next_date,status,remarks'' @ [CR, LF] \<and>
   list_all (\<lambda>r. list_all one_line (row_fields customer_getattr customer_cols r))
     (customer_rows seeded_db) \<and>
   length (customer_rows seeded_db) = 3 \<and> line_count (export_customers seeded_db) = 4 \<and>
   list_all (\<lambda>r. list_all one_line (row_fields order_getattr order_cols r))
     (order_rows seeded_db) \<and>
   length (order_rows seeded_db) = 3 \<and> line_count (export_orders seeded_db) = 4 \<and>
   list_all (\<lambda>r. list_all one_line (row_fields followup_getattr followup_cols r))
     (followup_rows seeded_db) \<and>
   length (followup_rows seeded_db) = 1 \<and> line_count (export_followups seeded_db) = 2"
proof -
  note T = csv_export_shape[of empty_db] and S = csv_export_shape[of seeded_db]
  have e: "customer_rows empty_db = []" "order_rows empty_db = []" "followup_rows empty_db = []"
    by (simp_all add: empty_db_def)
  have n: "length (customer_rows seeded_db) = 3" "length (order_rows seeded_db) = 3"
    "length (followup_rows seeded_db) = 1"
    by (simp_all add: seeded_db_def)
  have c: "list_all (\<lambda>r. list_all one_line (row_fields customer_getattr customer_cols r))
     (customer_rows seeded_db)"
    by (simp add: row_fields_customer seeded_db_def priya_def kavya_def meena_def cell_one_line
        CR_def LF_def)
  have r: "list_all (\<lambda>r. list_all one_line (row_fields order_getattr order_cols r))
     (order_rows seeded_db)"
    by (simp add: row_fields_order seeded_db_def order1_def order2_def order3_def cell_one_line
        CR_def LF_def)
  have f: "list_all (\<lambda>r. list_all one_line (row_fields followup_getattr followup_cols r))
     (followup_rows seeded_db)"
    by (simp add: row_fields_followup seeded_db_def followup1_def cell_one_line CR_def LF_def)
  from S have l1: "(\<forall>r\<in>set (customer_rows seeded_db).
        \<forall>x\<in>set (row_fields customer_getattr customer_cols r). one_line x)
            \<longrightarrow>
      line_count (export_customers seeded_db) = length (customer_rows seeded_db) + 1"
    by (elim conjE)
  from S have l2: "(\<forall>r\<in>set (order_rows seeded_db).
        \<forall>x\<in>set (row_fields order_getattr order_cols r). one_line x) \<longrightarrow>
      line_count (export_orders seeded_db) = length (order_rows seeded_db) + 1"
    by (elim conjE)
  from S have l3: "(\<forall>r\<in>set (followup_rows seeded_db).
        \<forall>x\<in>set (row_fields followup_getattr followup_cols r). one_line x)
            \<longrightarrow>
      line_count (export_followups seeded_db) = length (followup_rows seeded_db) + 1"
    by (elim conjE)
  from T have h1: "customer_rows empty_db = [] \<longrightarrow>
      export_customers empty_db = ''customer_id,name,insta,phone,city,ctype,notes'' @ [CR, LF]"
    by (elim conjE)
  from T have h2: "order_rows empty_db = [] \<longrightarrow>
      export_orders empty_db =
        ''order_id,date,customer_id,saree_type,amount,payment_status,delivery_status,remarks'' @
        [CR, LF]"
    by (elim conjE)
  from T have h3: "followup_rows empty_db = [] \<longrightarrow>
      export_followups empty_db =
        ''fu_id,date,customer_name,insta,topic,next_date,status,remarks'' @ [CR, LF]"
    by (elim conjE)
  have k1: "line_count (export_customers seeded_db) = 4"
    using l1 c n(1) by (simp add: list_all_iff)
  have k2: "line_count (export_orders seeded_db) = 4"
    using l2 r n(2) by (simp add: list_all_iff)
  have k3: "line_count (export_followups seeded_db) = 2"
    using l3 f n(3) by (simp add: list_all_iff)
  show ?thesis using h1 h2 h3 e c r f n k1 k2 k3 by blast
qed

text \<open>
  The claim as worded counts \<open>N + 1\<close> lines for every table. With one customer whose
      notes
  hold a line feed, the quoted field runs over two lines and the export has three.
\<close>

theorem csv_export_lines_counterexample:
  "length (customer_rows multiline_db) = 1 \<and>
   export_customers multiline_db =
     ''customer_id,name,insta,phone,city,ctype,notes'' @ [CR, LF] @
     ''C001,Asha,,,,,'' @ [CHR 0x22] @ ''silk'' @ [LF] @ ''cotton'' @ [CHR 0x22, CR, LF] \<and>
   line_count (export_customers multiline_db) = 3"
proof -
  have row: "writerow [''C001'', ''Asha'', [], [], [], [], ''silk'' @ [LF] @ ''cotton''] =
     ''C001,Asha,,,,,'' @ [CHR 0x22] @ ''silk'' @ [LF] @ ''cotton'' @ [CHR 0x22, CR, LF]"
    by (simp add: writerow_def csv_field_def needs_quote_def CR_def LF_def)
  have "export_customers multiline_db =
     ''customer_id,name,insta,phone,city,ctype,notes'' @ [CR, LF] @
     ''C001,Asha,,,,,'' @ [CHR 0x22] @ ''silk'' @ [LF] @ ''cotton'' @ [CHR 0x22, CR, LF]"
    unfolding export_customers_def rows_to_csv_def header_rows row_fields_customer
    using row by (simp add: multiline_db_def cell_text_def opt_str_def)
  then show ?thesis by (simp add: line_count_def multiline_db_def CR_def LF_def)
qed

subsection \<open>Average order value\<close>


















subsection \<open>Creating, updating and deleting through a form\<close>





lemma customers_insert:
  assumes "str_or (form ''customer_id'') (next_customer_id d) = Inr cid"
    and "filter_by_first c_customer_id cid (customer_rows d) = None"
    and "form ''name'' = Some nm"
  shows "customers d (POST form) =
    Inr (d\<lparr>customer_rows := customer_rows d @
      [\<lparr>c_id = next_rowid (map c_id (customer_rows d)), c_customer_id = cid, c_name = nm,
          c_insta = form ''insta'', c_phone = form ''phone'', c_city = form ''city'',
          c_ctype = form ''ctype'', c_notes = form ''notes''\<rparr>]\<rparr>,
          Redirect ''/customers'')"
  using assms by (simp add: customers_def)


lemma orders_insert:
  assumes "str_or (form ''order_id'') (next_order_id d) = Inr oid"
    and "filter_by_first o_order_id oid (order_rows d) = None"
    and "fromisoformat ev (str_or_default (form ''date'') (isoformat (today ev))) = Some dt"
    and "int_or_0 (form ''amount'') = Some amt"
    and "form ''customer_id'' = Some cu"
  shows "orders ev d (POST form) =
    Inr (d\<lparr>order_rows := order_rows d @
      [\<lparr>o_id = next_rowid (map o_id (order_rows d)), o_order_id = oid, o_date = Some dt,
          o_customer_id = cu, o_saree_type = form ''saree_type'', o_amount = Some amt,
          o_payment_status = form ''payment_status'', o_delivery_status = form ''delivery_status'',
          o_remarks = form ''remarks''\<rparr>]\<rparr>, Redirect ''/orders'')"
  using assms by (simp add: orders_def)



















subsection \<open>How the stores of the examples arise\<close>

lemma out_of_order_db_reachable:
  "customers empty_db (POST post_asha) =
     Inr (empty_db\<lparr>customer_rows := [hd (customer_rows out_of_order_db)]\<rparr>,
         Redirect ''/customers'') \<and>
   customers (empty_db\<lparr>customer_rows := [hd (customer_rows out_of_order_db)]\<rparr>) (POST
       post_bina) =
     Inr (out_of_order_db, Redirect ''/customers'')"
proof -
  let ?d = "empty_db\<lparr>customer_rows := [hd (customer_rows out_of_order_db)]\<rparr>"
  have a: "str_or (post_asha ''customer_id'') (next_customer_id empty_db) = Inr ''C005''"
    "filter_by_first c_customer_id ''C005'' (customer_rows empty_db) = None"
    "post_asha ''name'' = Some ''Asha''"
    by (simp_all add: post_asha_def str_or_def empty_db_def filter_by_first_def first_def)
  have b: "str_or (post_bina ''customer_id'') (next_customer_id ?d) = Inr ''C002''"
    "filter_by_first c_customer_id ''C002'' (customer_rows ?d) = None"
    "post_bina ''name'' = Some ''Bina''"
    by (simp_all add: post_bina_def str_or_def out_of_order_db_def filter_by_first_def first_def)
  have fa: "post_asha ''insta'' = None" "post_asha ''phone'' = None" "post_asha ''city'' = None"
    "post_asha ''ctype'' = None" "post_asha ''notes'' = None"
    by (simp_all add: post_asha_def)
  have fb: "post_bina ''insta'' = None" "post_bina ''phone'' = None" "post_bina ''city'' = None"
    "post_bina ''ctype'' = None" "post_bina ''notes'' = None"
    by (simp_all add: post_bina_def)
  show ?thesis
    using customers_insert[OF a] customers_insert[OF b]
    by (simp add: fa fb empty_db_def out_of_order_db_def next_rowid_def)
qed

lemma multiline_db_reachable:
  "customers empty_db (POST post_asha_notes) = Inr (multiline_db, Redirect ''/customers'')"
proof -
  have a: "str_or (post_asha_notes ''customer_id'') (next_customer_id empty_db) = Inr ''C001''"
    "filter_by_first c_customer_id ''C001'' (customer_rows empty_db) = None"
    "post_asha_notes ''name'' = Some ''Asha''"
    by (simp_all add: post_asha_notes_def str_or_def empty_db_def filter_by_first_def first_def
        next_id_empty)
  have fa: "post_asha_notes ''insta'' = None" "post_asha_notes ''phone'' = None"
    "post_asha_notes ''city'' = None" "post_asha_notes ''ctype'' = None"
    "post_asha_notes ''notes'' = Some (''silk'' @ [LF] @ ''cotton'')"
    by (simp_all add: post_asha_notes_def)
  show ?thesis
    using customers_insert[OF a]
    by (simp add: fa empty_db_def multiline_db_def next_rowid_def)
qed

lemma huge_order_db_reachable:
  "orders sample_env empty_db (POST post_huge_order) = Inr (huge_order_db, Redirect ''/orders'')"
proof -
  have a: "str_or (post_huge_order ''order_id'') (next_order_id empty_db) = Inr ''O001''"
    "fromisoformat sample_env
       (str_or_default (post_huge_order ''date'') (isoformat (today sample_env))) =
     Some (2024, 6, 15)"
    "filter_by_first o_order_id ''O001'' (order_rows empty_db) = None"
    "post_huge_order ''customer_id'' = Some ''C001''"
    by (simp_all add: post_huge_order_def str_or_def str_or_default_def empty_db_def
        filter_by_first_def first_def next_id_empty sample_today sample_parse)
  have "py_int ''9007199254740993'' = Some 9007199254740993"
    by (simp add: py_int_def strip_def is_space_def parse_nat_def is_digit_def digit_val_def)
  then have amt: "int_or_0 (post_huge_order ''amount'') = Some 9007199254740993"
    by (simp add: post_huge_order_def int_or_0_def)
  have fa: "post_huge_order ''saree_type'' = None" "post_huge_order ''payment_status'' = None"
    "post_huge_order ''delivery_status'' = None" "post_huge_order ''remarks'' = None"
    by (simp_all add: post_huge_order_def)
  show ?thesis
    using orders_insert[OF a(1,3,2) amt a(4)]
    by (simp add: fa empty_db_def huge_order_db_def next_rowid_def)
qed

end
